theory Spec2Isabelle
  imports Main "HOL-Library.Sublist"
begin

section \<open>Go values shared by the source files\<close>

text \<open>
  A Go \<^verbatim>\<open>error\<close> is represented by its message; \<^verbatim>\<open>nil\<close> is \<open>None\<close>.
  A call either returns to its caller, ends the process through \<^verbatim>\<open>os.Exit\<close>, or
  panics. Every function that logs or talks to the container runtime returns the list of
  the events it caused, in order, together with its outcome.
\<close>

type_synonym error = string

datatype 'a outcome = Returned 'a | Exited int | Panicked

datatype 'a reply = Ok 'a | Fails error | Panics

record docker_Config =
  Cmd :: "string list"
  Env :: "string list"
  Image :: string
  OpenStdin :: bool
  StdinOnce :: bool
  AttachStdin :: bool
  AttachStdout :: bool
  AttachStderr :: bool
  Tty :: bool

datatype event =
    Infof string "string list"
  | Errorf string "string list"
  | Debugf string "string list"
  | Created docker_Config "string list" "error + string"
  | Started string "string list"
  | Removed string bool
  | Pulled string
  | Closed string

text \<open>
  \<open>Created config binds r\<close> is a call that asks the runtime for a container, with what
  the runtime returned: its identifier, or an error. \<open>Started id binds\<close>,
  \<open>Removed id force\<close>, \<open>Pulled image\<close> and \<open>Closed id\<close> (the log stream of a
  container) are the other calls that change something.
\<close>

type_synonym 'a run = "event list \<times> 'a outcome"

definition andThen :: "'a run \<Rightarrow> ('a \<Rightarrow> 'b run) \<Rightarrow> 'b run" where
  "andThen m f =
     (case m of
        (tr, Returned x) \<Rightarrow> (case f x of (tr', r) \<Rightarrow> (tr @ tr', r))
      | (tr, Exited n) \<Rightarrow> (tr, Exited n)
      | (tr, Panicked) \<Rightarrow> (tr, Panicked))"

text \<open>
  A deferred call runs when the function returns and when it panics, not when the
  process exits.
\<close>

definition deferred :: "event list \<Rightarrow> 'a run \<Rightarrow> 'a run" where
  "deferred evs m =
     (case m of
        (tr, Exited n) \<Rightarrow> (tr, Exited n)
      | (tr, out) \<Rightarrow> (tr @ evs, out))"

text \<open>
  What a list of events says: the removals that were made, and the containers that were
  created with success.
\<close>

fun removals :: "event list \<Rightarrow> (string \<times> bool) list" where
  "removals [] = []"
| "removals (Removed cid force # es) = (cid, force) # removals es"
| "removals (e # es) = removals es"

fun createdWorkers :: "event list \<Rightarrow> string list" where
  "createdWorkers [] = []"
| "createdWorkers (Created config binds (Inr cid) # es) = cid # createdWorkers es"
| "createdWorkers (e # es) = createdWorkers es"

text \<open>
  \<^verbatim>\<open>checkErr(err, msg, exit)\<close> of the main package. \<^verbatim>\<open>util.CheckErr\<close>, which
  volume.go calls with the same three arguments, is the same function moved to the util
  package; util is not among the source files, so both are this definition.
\<close>

definition checkErr :: "error option \<Rightarrow> string \<Rightarrow> int \<Rightarrow> unit run" where
  "checkErr err msg exit =
     (case err of
        None \<Rightarrow> ([], Returned ())
      | Some e \<Rightarrow> ([Errorf msg [e]], if exit \<noteq> - 1 then Exited exit else Returned ()))"

text \<open>\<^verbatim>\<open>%v\<close> of an integer: decimal digits, with a leading minus sign.\<close>

fun showNat :: "nat \<Rightarrow> string" where
  "showNat n =
     (if n < 10 then [''0123456789'' ! n]
      else showNat (n div 10) @ [''0123456789'' ! (n mod 10)])"

definition itoa :: "int \<Rightarrow> string" where
  "itoa i = (if i < 0 then CHR ''-'' # showNat (nat (- i)) else showNat (nat i))"

text \<open>\<^verbatim>\<open>strings.Contains(s, substr)\<close>.\<close>

fun hasPrefix :: "string \<Rightarrow> string \<Rightarrow> bool" where
  "hasPrefix s [] = True"
| "hasPrefix [] (p # ps) = False"
| "hasPrefix (c # cs) (p # ps) = (c = p \<and> hasPrefix cs ps)"

fun Contains :: "string \<Rightarrow> string \<Rightarrow> bool" where
  "Contains [] sub = hasPrefix [] sub"
| "Contains (c # cs) sub = (hasPrefix (c # cs) sub \<or> Contains cs sub)"

section \<open>volume/volume.go\<close>

record Volume =
  Name :: string
  Target :: string
  BackupDir :: string
  Mount :: string
  FullIfOlderThan :: string
  RemoveOlderThan :: string

text \<open>
  \<^verbatim>\<open>v.Client.LaunchDuplicity(cmd, binds)\<close> belongs to the handler package, which is not
  among the source files: it is a parameter, a function from the command and the binds
  to the three values it returns. Of the returned \<^verbatim>\<open>docker.State\<close> only the exit code
  is read.
\<close>

record State =
  ExitCode :: int

type_synonym launcher = "string list \<Rightarrow> string list \<Rightarrow> State \<times> string \<times> error option"

definition cacheMount :: string where
  "cacheMount = ''duplicity_cache:/root/.cache/duplicity''"

definition timeFormat :: string where
  "timeFormat = ''Mon Jan 2 15:04:05 2006''"

text \<open>
  The two patterns are a literal followed by \<^verbatim>\<open>(.+)\<close>. A pattern of that shape is
  represented by its literal. \<^verbatim>\<open>FindStringSubmatch\<close> returns the leftmost match: the
  first position where the literal is followed by at least one character other than a
  newline; the group is greedy and takes every character up to the next newline or the
  end of the text. The result is the whole match and the group, or the empty slice.
\<close>

definition fullBackupRx :: string where
  "fullBackupRx = ''Last full backup date: ''"

definition chainEndTimeRx :: string where
  "chainEndTimeRx = ''Chain end time: ''"

definition matchAt :: "string \<Rightarrow> string \<Rightarrow> string option" where
  "matchAt lit s =
     (if hasPrefix s lit
      then (case takeWhile (\<lambda>c. c \<noteq> CHR 0x0A) (drop (length lit) s) of
              [] \<Rightarrow> None
            | g # gs \<Rightarrow> Some (g # gs))
      else None)"

fun FindStringSubmatch :: "string \<Rightarrow> string \<Rightarrow> string list" where
  "FindStringSubmatch lit [] = []"
| "FindStringSubmatch lit (c # cs) =
     (case matchAt lit (c # cs) of
        Some g \<Rightarrow> [lit @ g, g]
      | None \<Rightarrow> FindStringSubmatch lit cs)"

text \<open>
  The standard library functions \<^verbatim>\<open>time.Parse\<close> and \<^verbatim>\<open>strings.TrimSpace\<close> are
  parameters. A \<^verbatim>\<open>time.Time\<close> is represented by what \<^verbatim>\<open>Unix()\<close> returns for it,
  the only thing Status reads. When \<^verbatim>\<open>time.Parse\<close> fails it returns the zero
  \<^verbatim>\<open>Time\<close>, January 1 of year 1, 00:00:00 UTC, together with the error.
\<close>

type_synonym Time = int

record stdlib =
  Parse :: "string \<Rightarrow> string \<Rightarrow> error + Time"
  TrimSpace :: "string \<Rightarrow> string"

definition zeroTime :: Time where
  "zeroTime = - 62135596800"

definition Unix :: "Time \<Rightarrow> int" where
  "Unix t = t"

definition time_Parse :: "stdlib \<Rightarrow> string \<Rightarrow> string \<Rightarrow> Time \<times> error option" where
  "time_Parse lib layout s =
     (case Parse lib layout s of
        Inl e \<Rightarrow> (zeroTime, Some e)
      | Inr t \<Rightarrow> (t, None))"

text \<open>
  \<^verbatim>\<open>fmt.Sprintf("conplicity{volume=\"%v\",what=\"<what>\"} %v", v.Name, value)\<close>,
  the one format of every metric in the file.
\<close>

definition metric :: "string \<Rightarrow> string \<Rightarrow> int \<Rightarrow> string" where
  "metric name what val =
     ''conplicity{volume=\"'' @ name @ ''\",what=\"'' @ what @ ''\"} '' @ itoa val"

definition Backup :: "launcher \<Rightarrow> Volume \<Rightarrow> (string list \<times> error option) run" where
  "Backup LaunchDuplicity v =
     (case LaunchDuplicity
             [''--full-if-older-than'', FullIfOlderThan v,
              ''--s3-use-new-style'',
              ''--ssh-options'', ''-oStrictHostKeyChecking=no'',
              ''--no-encryption'',
              ''--allow-source-mismatch'',
              ''--name'', Name v,
              BackupDir v,
              Target v]
             [Mount v, cacheMount] of
        (state, _, err) \<Rightarrow>
          andThen (checkErr err ''Failed to launch Duplicity: %v'' 1) (\<lambda>_.
            ([], Returned ([metric (Name v) ''backupExitCode'' (ExitCode state)], err))))"

definition RemoveOld :: "launcher \<Rightarrow> Volume \<Rightarrow> (string list \<times> error option) run" where
  "RemoveOld LaunchDuplicity v =
     (case LaunchDuplicity
             [''remove-older-than'', RemoveOlderThan v,
              ''--s3-use-new-style'',
              ''--ssh-options'', ''-oStrictHostKeyChecking=no'',
              ''--no-encryption'',
              ''--force'',
              ''--name'', Name v,
              Target v]
             [cacheMount] of
        (_, _, err) \<Rightarrow>
          andThen (checkErr err ''Failed to launch Duplicity: %v'' 1) (\<lambda>_.
            ([], Returned ([], err))))"

definition Cleanup :: "launcher \<Rightarrow> Volume \<Rightarrow> (string list \<times> error option) run" where
  "Cleanup LaunchDuplicity v =
     (case LaunchDuplicity
             [''cleanup'',
              ''--s3-use-new-style'',
              ''--ssh-options'', ''-oStrictHostKeyChecking=no'',
              ''--no-encryption'',
              ''--force'',
              ''--extra-clean'',
              ''--name'', Name v,
              Target v]
             [cacheMount] of
        (_, _, err) \<Rightarrow>
          andThen (checkErr err ''Failed to launch Duplicity: %v'' 1) (\<lambda>_.
            ([], Returned ([], err))))"

definition Verify :: "launcher \<Rightarrow> Volume \<Rightarrow> (string list \<times> error option) run" where
  "Verify LaunchDuplicity v =
     (case LaunchDuplicity
             [''verify'',
              ''--s3-use-new-style'',
              ''--ssh-options'', ''-oStrictHostKeyChecking=no'',
              ''--no-encryption'',
              ''--allow-source-mismatch'',
              ''--name'', Name v,
              Target v,
              BackupDir v]
             [Mount v, cacheMount] of
        (state, _, err) \<Rightarrow>
          andThen (checkErr err ''Failed to launch Duplicity: %v'' 1) (\<lambda>_.
            ([], Returned ([metric (Name v) ''verifyExitCode'' (ExitCode state)], err))))"

definition Status ::
  "stdlib \<Rightarrow> launcher \<Rightarrow> Volume \<Rightarrow> (string list \<times> error option) run" where
  "Status lib LaunchDuplicity v =
     (case LaunchDuplicity
             [''collection-status'',
              ''--s3-use-new-style'',
              ''--ssh-options'', ''-oStrictHostKeyChecking=no'',
              ''--no-encryption'',
              ''--name'', Name v,
              Target v]
             [Mount v, cacheMount] of
        (_, stdout, err) \<Rightarrow>
          andThen (checkErr err ''Failed to launch Duplicity: %v'' 1) (\<lambda>_.
            let fullBackup = FindStringSubmatch fullBackupRx stdout in
            if length fullBackup > 0 then
              (case time_Parse lib timeFormat (TrimSpace lib (fullBackup ! 1)) of
                 (fullBackupDate, err) \<Rightarrow>
                   andThen (checkErr err ''Failed to parse full backup date: %v'' (- 1)) (\<lambda>_.
                     let chainEndTime = FindStringSubmatch chainEndTimeRx stdout in
                     if length chainEndTime > 0 then
                       (case time_Parse lib timeFormat (TrimSpace lib (chainEndTime ! 1)) of
                          (chainEndTimeDate, err) \<Rightarrow>
                            andThen
                              (checkErr err ''Failed to parse chain end time date: %v'' (- 1))
                              (\<lambda>_.
                                ([], Returned
                                   ([metric (Name v) ''lastBackup'' (Unix chainEndTimeDate),
                                     metric (Name v) ''lastFullBackup'' (Unix fullBackupDate)],
                                    err))))
                     else
                       ([], Returned
                          ([], Some (''Failed to parse Duplicity output for chain end time of ''
                                     @ Name v)))))
            else
              ([], Returned
                 ([], Some (''Failed to parse Duplicity output for last full backup date of ''
                            @ Name v)))))"

section \<open>The main package\<close>

text \<open>The file of package \<^verbatim>\<open>main\<close>, which is src/unnamed/part_000.\<close>

definition labelPrefix :: string where
  "labelPrefix = ''io.conplicity''"

record environment =
  Image :: string
  DuplicityTargetURL :: string
  AWSAccessKeyID :: string
  AWSSecretAccessKey :: string
  SwiftUsername :: string
  SwiftPassword :: string
  SwiftAuthURL :: string
  SwiftTenantName :: string
  SwiftRegionName :: string
  FullIfOlderThan :: string

record docker_Volume =
  Name :: string
  Driver :: string
  Mountpoint :: string
  Labels :: "string \<rightharpoonup> string"

text \<open>
  The methods of \<^verbatim>\<open>*docker.Client\<close> that the package calls, each as what it returns.
  \<^verbatim>\<open>dockerpty.Start\<close> runs while the removal of the container is deferred, so its
  reply can also be a panic.
\<close>

record docker_Client =
  ListVolumes :: "error + docker_Volume list"
  InspectVolume :: "string \<Rightarrow> error + docker_Volume"
  InspectImage :: "string \<Rightarrow> error option"
  PullImage :: "string \<Rightarrow> error option"
  CreateContainer :: "docker_Config \<Rightarrow> error + string"
  Start :: "string \<Rightarrow> string list \<Rightarrow> unit reply"

record conplicity =
  Client :: docker_Client
  env :: environment
  Hostname :: string

text \<open>What the process finds when it starts: the parsed environment, the host name, the client.\<close>

record system =
  getEnv :: environment
  os_Hostname :: "error + string"
  NewClient :: "string \<Rightarrow> error + docker_Client"

definition errOf :: "error + 'a \<Rightarrow> error option" where
  "errOf r = (case r of Inl e \<Rightarrow> Some e | Inr x \<Rightarrow> None)"

text \<open>
  \<^verbatim>\<open>utf8.RuneCountInString\<close> of the standard library, on the bytes of the string: a
  well-formed UTF-8 sequence counts once, every other byte counts once by itself.
\<close>

definition runeLen :: "char \<Rightarrow> string \<Rightarrow> nat" where
  "runeLen c rest =
     (let b = (of_char c :: nat);
          byte = (\<lambda>i. (of_char (rest ! i) :: nat));
          size = (if b < 0xE0 then 2 else if b < 0xF0 then 3 else (4 :: nat));
          lo = (if b = 0xE0 then 0xA0 else if b = 0xF0 then 0x90 else (0x80 :: nat));
          hi = (if b = 0xED then 0x9F else if b = 0xF4 then 0x8F else (0xBF :: nat))
      in if b < 0x80 then 1
         else if b < 0xC2 \<or> 0xF4 < b then 1
         else if Suc (length rest) < size then 1
         else if byte 0 < lo \<or> hi < byte 0 then 1
         else if size = 2 then 2
         else if byte 1 < 0x80 \<or> 0xBF < byte 1 then 1
         else if size = 3 then 3
         else if byte 2 < 0x80 \<or> 0xBF < byte 2 then 1
         else 4)"

fun RuneCountInString :: "string \<Rightarrow> nat" where
  "RuneCountInString [] = 0"
| "RuneCountInString (c # cs) = Suc (RuneCountInString (drop (runeLen c cs - 1) cs))"

text \<open>A missing key of a Go map reads as the empty string.\<close>

definition getVolumeLabel :: "docker_Volume \<Rightarrow> string \<Rightarrow> string" where
  "getVolumeLabel vol key =
     (case Labels vol (labelPrefix @ key) of None \<Rightarrow> [] | Some val \<Rightarrow> val)"

text \<open>Lines 91 to 94 of \<^verbatim>\<open>backupVolume\<close>: the threshold of the volume.\<close>

definition fullIfOlderThan :: "conplicity \<Rightarrow> docker_Volume \<Rightarrow> string" where
  "fullIfOlderThan c vol =
     (let fullIfOlderThan = getVolumeLabel vol ''.full_if_older_than''
      in if fullIfOlderThan = [] then environment.FullIfOlderThan (env c) else fullIfOlderThan)"

text \<open>Lines 98 to 124: the \<^verbatim>\<open>docker.Config\<close> of the container.\<close>

definition containerConfig :: "conplicity \<Rightarrow> docker_Volume \<Rightarrow> docker_Config" where
  "containerConfig c vol =
     \<lparr>Cmd =
        [''--full-if-older-than'', fullIfOlderThan c vol,
         ''--s3-use-new-style'',
         ''--no-encryption'',
         ''--allow-source-mismatch'',
         ''/var/backups'',
         DuplicityTargetURL (env c) @ ''/'' @ Hostname c @ ''/'' @ docker_Volume.Name vol],
      Env =
        [''AWS_ACCESS_KEY_ID='' @ AWSAccessKeyID (env c),
         ''AWS_SECRET_ACCESS_KEY='' @ AWSSecretAccessKey (env c),
         ''SWIFT_USERNAME='' @ SwiftUsername (env c),
         ''SWIFT_PASSWORD='' @ SwiftPassword (env c),
         ''SWIFT_AUTHURL='' @ SwiftAuthURL (env c),
         ''SWIFT_TENANTNAME='' @ SwiftTenantName (env c),
         ''SWIFT_REGIONNAME='' @ SwiftRegionName (env c),
         ''SWIFT_AUTHVERSION=2''],
      Image = environment.Image (env c),
      OpenStdin = True,
      StdinOnce = True,
      AttachStdin = True,
      AttachStdout = True,
      AttachStderr = True,
      Tty = True\<rparr>"

text \<open>
  \<^verbatim>\<open>backupVolume(vol *docker.Volume)\<close>. A nil pointer is \<open>None\<close>, and reading its
  name panics. After \<^verbatim>\<open>checkErr\<close> with exit status 1 has returned, the creation has
  succeeded; the branch for a failed one is never run.
\<close>

definition backupVolume :: "conplicity \<Rightarrow> docker_Volume option \<Rightarrow> error option run" where
  "backupVolume c voll =
     (case voll of
        None \<Rightarrow> ([], Panicked)
      | Some vol \<Rightarrow>
          if RuneCountInString (docker_Volume.Name vol) = 64 then
            ([Infof (''Ignoring unnamed volume '' @ docker_Volume.Name vol) []], Returned None)
          else if getVolumeLabel vol ''.ignore'' = ''true'' then
            ([Infof (''Ignoring blacklisted volume '' @ docker_Volume.Name vol) []],
             Returned None)
          else
            (let container = CreateContainer (Client c) (containerConfig c vol) in
             andThen
               ([Infof (''ID: '' @ docker_Volume.Name vol) [],
                 Infof (''Driver: '' @ Driver vol) [],
                 Infof (''Mountpoint: '' @ Mountpoint vol) [],
                 Infof ''Creating duplicity container...'' [],
                 Created (containerConfig c vol) [] container], Returned ()) (\<lambda>_.
             andThen
               (checkErr (errOf container)
                  (''Failed to create container for volume '' @ docker_Volume.Name vol @ '': %v'')
                  1) (\<lambda>_.
             (case container of
                Inl e \<Rightarrow> ([], Panicked)
              | Inr cid \<Rightarrow>
                  deferred [Removed cid True]
                    (let binds = [Mountpoint vol @ '':/var/backups:ro''] in
                     (case Start (Client c) cid binds of
                        Panics \<Rightarrow> ([Started cid binds], Panicked)
                      | Ok u \<Rightarrow> ([Started cid binds], Returned None)
                      | Fails e \<Rightarrow>
                          andThen ([Started cid binds], Returned ()) (\<lambda>_.
                          andThen
                            (checkErr (Some e)
                               (''Failed to start container for volume ''
                                @ docker_Volume.Name vol @ '': %v'') (- 1)) (\<lambda>_.
                          ([], Returned (Some e)))))))))))"

definition pullImage :: "conplicity \<Rightarrow> error option run" where
  "pullImage c =
     (if InspectImage (Client c) (environment.Image (env c)) \<noteq> None then
        ([Infof ''Pulling image %v'' [environment.Image (env c)],
          Pulled (environment.Image (env c))],
         Returned (PullImage (Client c) (environment.Image (env c))))
      else ([], Returned None))"

text \<open>
  The loop of \<^verbatim>\<open>main\<close> over the listed volumes. \<open>err\<close> is the variable \<^verbatim>\<open>err\<close> of
  \<^verbatim>\<open>main\<close>: the error that \<^verbatim>\<open>InspectVolume\<close> returns is dropped, and the first
  \<^verbatim>\<open>checkErr\<close> of the body reads what the variable held before.
\<close>

definition loopBody :: "conplicity \<Rightarrow> error option \<Rightarrow> docker_Volume \<Rightarrow> error option run" where
  "loopBody c err vol =
     (let voll = (case InspectVolume (Client c) (docker_Volume.Name vol) of
                    Inl e \<Rightarrow> None
                  | Inr v \<Rightarrow> Some v) in
      andThen
        (checkErr err (''Failed to inspect volume '' @ docker_Volume.Name vol @ '': %v'') (- 1))
        (\<lambda>_.
      andThen (backupVolume c voll) (\<lambda>err.
      andThen
        (checkErr err (''Failed to process volume '' @ docker_Volume.Name vol @ '': %v'') (- 1))
        (\<lambda>_.
      ([], Returned err)))))"

fun mainLoop :: "conplicity \<Rightarrow> error option \<Rightarrow> docker_Volume list \<Rightarrow> error option run" where
  "mainLoop c err [] = ([], Returned err)"
| "mainLoop c err (vol # vols) =
     (case loopBody c err vol of
        (tr, Returned err') \<Rightarrow> (case mainLoop c err' vols of (tr', r) \<Rightarrow> (tr @ tr', r))
      | (tr, Exited n) \<Rightarrow> (tr, Exited n)
      | (tr, Panicked) \<Rightarrow> (tr, Panicked))"

definition main :: "system \<Rightarrow> unit run" where
  "main sys =
     andThen ([Infof ''Starting backup...'' []], Returned ()) (\<lambda>_.
     andThen (checkErr (errOf (os_Hostname sys)) ''Failed to get hostname: %v'' 1) (\<lambda>_.
     (case os_Hostname sys of
        Inl e \<Rightarrow> ([], Panicked)
      | Inr hostname \<Rightarrow>
          (let endpoint = ''unix:///var/run/docker.sock'' in
           andThen
             (checkErr (errOf (NewClient sys endpoint)) ''Failed to create Docker client: %v'' 1)
             (\<lambda>_.
           (case NewClient sys endpoint of
              Inl e \<Rightarrow> ([], Panicked)
            | Inr client \<Rightarrow>
                (let c = \<lparr>Client = client, env = getEnv sys, Hostname = hostname\<rparr> in
                 andThen
                   (checkErr (errOf (ListVolumes client)) ''Failed to list Docker volumes: %v'' 1)
                   (\<lambda>_.
                 andThen (pullImage c) (\<lambda>err.
                 andThen (checkErr err ''Failed to pull image: %v'' 1) (\<lambda>_.
                 andThen
                   (mainLoop c err (case ListVolumes client of Inl e \<Rightarrow> [] | Inr vols \<Rightarrow> vols))
                   (\<lambda>_.
                 ([Infof ''End backup...'' []], Returned ()))))))))))))"

section \<open>The Restic engine\<close>

text \<open>The file of package \<^verbatim>\<open>engines\<close>, which follows the README in src/README.md.\<close>

text \<open>
  \<^verbatim>\<open>r.Handler\<close>: its configuration and, as what they return, the calls that
  \<^verbatim>\<open>launchRestic\<close> makes. \<^verbatim>\<open>ContainerInspect\<close> is asked again and again: its reply
  depends on how many times it was asked before. The calls made while the removal of
  the container is deferred can also panic.
\<close>

record handler_Config =
  Restic_Image :: string
  Restic_Password :: string
  AWS_AccessKeyID :: string
  AWS_SecretAccessKey :: string
  Swift_Username :: string
  Swift_Password :: string
  Swift_AuthURL :: string
  Swift_TenantName :: string
  Swift_RegionName :: string

record Handler =
  Config :: handler_Config
  util_PullImage :: "string \<Rightarrow> error option"
  ContainerCreate :: "docker_Config \<Rightarrow> string list \<Rightarrow> error + string"
  ContainerStart :: "string \<Rightarrow> unit reply"
  ContainerInspect :: "string \<Rightarrow> nat \<Rightarrow> (string \<times> int) reply"
  ContainerLogs :: "string \<Rightarrow> unit reply"
  ReadAll :: "string \<Rightarrow> string reply"

record ResticEngine =
  Handler :: Handler
  Volume :: Volume

text \<open>\<^verbatim>\<open>strings.Join(elems, sep)\<close>.\<close>

fun Join :: "string list \<Rightarrow> string \<Rightarrow> string" where
  "Join [] sep = []"
| "Join [x] sep = x"
| "Join (x # y # ys) sep = x @ sep @ Join (y # ys) sep"

text \<open>
  The loop \<^verbatim>\<open>for !exited\<close> of \<^verbatim>\<open>launchRestic\<close>, which has no bound of its own:
  \<open>fuel\<close> bounds the number of inspections, and \<open>None\<close> is a loop that has not ended
  within it. \<open>n\<close> is the number of inspections made before.
\<close>

fun pollExited :: "nat \<Rightarrow> Handler \<Rightarrow> string \<Rightarrow> nat \<Rightarrow> int reply option" where
  "pollExited 0 h cid n = None"
| "pollExited (Suc fuel) h cid n =
     (case ContainerInspect h cid n of
        Fails e \<Rightarrow> Some (Fails e)
      | Panics \<Rightarrow> Some Panics
      | Ok (status, exitCode) \<Rightarrow>
          if status = ''exited'' then Some (Ok exitCode) else pollExited fuel h cid (Suc n))"

text \<open>
  \<^verbatim>\<open>launchRestic\<close> from the statement after \<^verbatim>\<open>defer util.RemoveContainer\<close> to its
  end. The results are named: a return after an error gives back what \<open>state\<close> and
  \<open>stdout\<close> hold then.
\<close>

definition runContainer ::
  "nat \<Rightarrow> Handler \<Rightarrow> string list \<Rightarrow> string \<Rightarrow> (int \<times> string \<times> error option) run option" where
  "runContainer fuel h cmd cid =
     (let tr = [Debugf ''Launching 'restic %v'...'' [Join cmd '' ''], Started cid []] in
      (case ContainerStart h cid of
         Fails e \<Rightarrow> Some (tr, Returned (0, [], Some (''failed to start container: '' @ e)))
       | Panics \<Rightarrow> Some (tr, Panicked)
       | Ok u \<Rightarrow>
           (case pollExited fuel h cid 0 of
              None \<Rightarrow> None
            | Some (Fails e) \<Rightarrow>
                Some (tr, Returned (0, [], Some (''failed to inspect container: '' @ e)))
            | Some Panics \<Rightarrow> Some (tr, Panicked)
            | Some (Ok state) \<Rightarrow>
                (case ContainerLogs h cid of
                   Fails e \<Rightarrow>
                     Some (tr, Returned (state, [], Some (''failed to retrieve logs: '' @ e)))
                 | Panics \<Rightarrow> Some (tr, Panicked)
                 | Ok u \<Rightarrow>
                     Some (deferred [Closed cid]
                       (case ReadAll h cid of
                          Fails e \<Rightarrow>
                            (tr, Returned
                               (state, [],
                                Some (''failed to read logs from response: '' @ e)))
                        | Panics \<Rightarrow> (tr, Panicked)
                        | Ok content \<Rightarrow>
                            (tr @ [Debugf content []],
                             Returned (state, content, None))))))))"

text \<open>
  \<^verbatim>\<open>launchRestic(cmd, binds)\<close>. \<^verbatim>\<open>util.PullImage\<close> is a reply of the handler.

  Modelled from the spec: \<^verbatim>\<open>util.RemoveContainer(client, id)\<close> is not among the source
  files. Section 4.1 of the specification says that the removal of the worker is
  forced, so the deferred call is the event \<open>Removed id True\<close>.
\<close>

definition launchRestic ::
  "nat \<Rightarrow> Handler \<Rightarrow> string list \<Rightarrow> string list
     \<Rightarrow> (int \<times> string \<times> error option) run option" where
  "launchRestic fuel h cmd binds =
     (case util_PullImage h (Restic_Image (Config h)) of
        Some e \<Rightarrow> Some ([], Returned (0, [], Some (''failed to pull image: '' @ e)))
      | None \<Rightarrow>
          (let env =
                 [''AWS_ACCESS_KEY_ID='' @ AWS_AccessKeyID (Config h),
                  ''AWS_SECRET_ACCESS_KEY='' @ AWS_SecretAccessKey (Config h),
                  ''OS_USERNAME='' @ Swift_Username (Config h),
                  ''OS_PASSWORD='' @ Swift_Password (Config h),
                  ''OS_AUTH_URL='' @ Swift_AuthURL (Config h),
                  ''OS_TENANT_NAME='' @ Swift_TenantName (Config h),
                  ''OS_REGION_NAME='' @ Swift_RegionName (Config h),
                  ''RESTIC_PASSWORD='' @ Restic_Password (Config h)];
               config =
                 \<lparr>Cmd = cmd,
                  Env = env,
                  Image = Restic_Image (Config h),
                  OpenStdin = True,
                  StdinOnce = True,
                  AttachStdin = True,
                  AttachStdout = True,
                  AttachStderr = True,
                  Tty = True\<rparr>;
               container = ContainerCreate h config binds;
               tr = [Debugf ''Creating container''
                       [Restic_Image (Config h), Join cmd '' '', Join env '', '',
                        Join binds '', ''],
                     Created config binds container]
           in (case container of
                 Inl e \<Rightarrow>
                   Some (tr, Returned (0, [], Some (''failed to create container: '' @ e)))
               | Inr cid \<Rightarrow>
                   map_option (\<lambda>m. deferred [Removed cid True] (tr @ fst m, snd m))
                     (runContainer fuel h cmd cid))))"

text \<open>\<^verbatim>\<open>init\<close>, \<^verbatim>\<open>resticBackup\<close>: what each makes of the three results of the launch.\<close>

definition init :: "nat \<Rightarrow> ResticEngine \<Rightarrow> error option run option" where
  "init fuel r =
     (let v = Volume r in
      map_option (\<lambda>m.
        andThen m (\<lambda>(state, stdout, err).
          if Contains stdout ''already initialized'' then ([], Returned None)
          else if err \<noteq> None then
            ([], Returned
               (Some (''failed to launch Restic to initialize the repository: '' @ the err)))
          else if state \<noteq> 0 then
            ([], Returned
               (Some (''Restic existed with state '' @ itoa state
                      @ '' while initializing repository'')))
          else ([], Returned err)))
        (launchRestic fuel (Handler r) [''-r'', Target v, ''init''] [Mount v]))"

definition resticBackup :: "nat \<Rightarrow> ResticEngine \<Rightarrow> error option run option" where
  "resticBackup fuel r =
     (let v = Volume r in
      map_option (\<lambda>m.
        andThen m (\<lambda>(state, stdout, err).
          let err = (if err \<noteq> None
                     then Some (''failed to launch Restic to backup the volume: '' @ the err)
                     else err);
              err = (if state \<noteq> 0
                     then Some (''Restic exited with state '' @ itoa state
                                @ '' while backuping the volume'')
                     else err)
          in ([], Returned err)))
        (launchRestic fuel (Handler r) [''-r'', Target v, ''backup'', BackupDir v] [Mount v]))"

section \<open>The retry policy\<close>

text \<open>
  Modelled from the spec: \<^verbatim>\<open>util.Retry\<close> is not among the source files; the engine
  only calls it, as \<^verbatim>\<open>util.Retry(3, r.init)\<close>. Section 4.2 of the specification gives
  the contract \<^verbatim>\<open>Retry(maxAttempts, operation)\<close>: the operation is invoked; when it
  fails it is invoked again, the number of attempts being bounded by \<open>maxAttempts\<close>;
  the result is the error of the last attempt when every attempt has failed, and no
  error at the first success. The operation acts on a state \<open>'s\<close>, which it may change at
  each invocation.
\<close>

fun Retry :: "nat \<Rightarrow> ('s \<Rightarrow> error option \<times> 's) \<Rightarrow> 's \<Rightarrow> error option \<times> 's" where
  "Retry maxAttempts operation s =
     (case operation s of
        (None, s') \<Rightarrow> (None, s')
      | (Some e, s') \<Rightarrow>
          if maxAttempts \<le> 1 then (Some e, s') else Retry (maxAttempts - 1) operation s')"

section \<open>Example inputs\<close>

text \<open>
  The inputs at which the statements below are instantiated: a volume of volume.go with
  a launcher that returns a given exit code and output, a handler of the Restic engine
  whose worker is seen running once and then exited, and clients of the main package.
\<close>

abbreviation example_Volume :: Volume where
  "example_Volume \<equiv>
     \<lparr>Volume.Name = ''data'', Target = ''s3://bucket/host/data'',
      BackupDir = ''/var/backups'', Mount = ''data:/var/backups:ro'',
      FullIfOlderThan = ''15D'', RemoveOlderThan = ''30D''\<rparr>"

text \<open>Three outputs of \<^verbatim>\<open>duplicity collection-status\<close>.\<close>

abbreviation output_with_both_dates :: string where
  "output_with_both_dates \<equiv>
     ''Last full backup date: Mon Jan 2 15:04:05 2006'' @ [CHR 0x0D, CHR 0x0A]
     @ ''Chain start time: Mon Jan 2 15:04:05 2006'' @ [CHR 0x0D, CHR 0x0A]
     @ ''Chain end time: Tue Jan 3 15:04:06 2006'' @ [CHR 0x0D, CHR 0x0A]
     @ ''Number of contained backup sets: 2'' @ [CHR 0x0D, CHR 0x0A]"


abbreviation output_with_unparsed_date :: string where
  "output_with_unparsed_date \<equiv>
     ''Last full backup date: none\<newline>''
     @ ''Chain end time: Tue Jan 3 15:04:06 2006\<newline>''"

abbreviation example_launcher :: "int \<Rightarrow> string \<Rightarrow> launcher" where
  "example_launcher code out \<equiv> (\<lambda>cmd binds. (\<lparr>ExitCode = code\<rparr>, out, None))"

text \<open>
  A parser that knows two dates, and \<^verbatim>\<open>strings.TrimSpace\<close> as it is on ASCII text.
\<close>

abbreviation ascii_space :: "char \<Rightarrow> bool" where
  "ascii_space c \<equiv>
     c \<in> set [CHR 0x09, CHR 0x0A, CHR 0x0B, CHR 0x0C, CHR 0x0D, CHR 0x20]"

abbreviation example_stdlib :: stdlib where
  "example_stdlib \<equiv>
     \<lparr>Parse = (\<lambda>layout s.
        if layout = ''Mon Jan 2 15:04:05 2006'' \<and> s = ''Mon Jan 2 15:04:05 2006''
        then Inr 1136214245
        else if layout = ''Mon Jan 2 15:04:05 2006'' \<and> s = ''Tue Jan 3 15:04:06 2006''
        then Inr 1136300646
        else Inl ''cannot parse''),
      TrimSpace = (\<lambda>s. rev (dropWhile ascii_space (rev (dropWhile ascii_space s))))\<rparr>"

abbreviation example_Handler :: "unit reply \<Rightarrow> int \<Rightarrow> string \<Rightarrow> Handler" where
  "example_Handler start exitCode out \<equiv>
     \<lparr>Config =
        \<lparr>Restic_Image = ''restic/restic:latest'', Restic_Password = ''secret'',
         AWS_AccessKeyID = ''key'', AWS_SecretAccessKey = ''skey'',
         Swift_Username = [], Swift_Password = [], Swift_AuthURL = [],
         Swift_TenantName = [], Swift_RegionName = []\<rparr>,
      util_PullImage = (\<lambda>image. None),
      ContainerCreate = (\<lambda>config binds. Inr ''c1''),
      ContainerStart = (\<lambda>cid. start),
      ContainerInspect =
        (\<lambda>cid n. if n = 0 then Ok (''running'', 0) else Ok (''exited'', exitCode)),
      ContainerLogs = (\<lambda>cid. Ok ()),
      ReadAll = (\<lambda>cid. Ok out)\<rparr>"

abbreviation example_engine :: "unit reply \<Rightarrow> int \<Rightarrow> string \<Rightarrow> ResticEngine" where
  "example_engine start exitCode out \<equiv>
     \<lparr>Handler = example_Handler start exitCode out, Volume = example_Volume\<rparr>"

abbreviation example_environment :: environment where
  "example_environment \<equiv>
     \<lparr>environment.Image = ''camptocamp/duplicity:latest'',
      DuplicityTargetURL = ''s3://bucket'',
      AWSAccessKeyID = ''key'', AWSSecretAccessKey = ''skey'',
      SwiftUsername = [], SwiftPassword = [], SwiftAuthURL = [],
      SwiftTenantName = [], SwiftRegionName = [],
      FullIfOlderThan = ''15D''\<rparr>"

abbreviation example_conplicity :: "unit reply \<Rightarrow> conplicity" where
  "example_conplicity start \<equiv>
     \<lparr>Client =
        \<lparr>ListVolumes = Inr [],
         InspectVolume = (\<lambda>name. Inl ''no such volume''),
         InspectImage = (\<lambda>image. None),
         PullImage = (\<lambda>image. None),
         CreateContainer = (\<lambda>config. Inr ''c1''),
         Start = (\<lambda>cid binds. start)\<rparr>,
      env = example_environment,
      Hostname = ''host1''\<rparr>"

abbreviation anonymous_name :: string where
  "anonymous_name \<equiv> ''0123456789abcdef0123456789abcdef0123456789abcdef0123456789abcdef''"

abbreviation example_docker_Volume :: "string \<Rightarrow> (string \<rightharpoonup> string) \<Rightarrow> docker_Volume" where
  "example_docker_Volume name labels \<equiv>
     \<lparr>docker_Volume.Name = name, Driver = ''local'',
      Mountpoint = ''/var/lib/docker/volumes/'' @ name @ ''/_data'', Labels = labels\<rparr>"

abbreviation listed_Volume :: "string \<Rightarrow> docker_Volume" where
  "listed_Volume name \<equiv>
     \<lparr>docker_Volume.Name = name, Driver = ''local'',
      Mountpoint = ''/volumes/'' @ name, Labels = Map.empty\<rparr>"

abbreviation two_Volumes :: "docker_Volume list" where
  "two_Volumes \<equiv> [listed_Volume ''data1'', listed_Volume ''data2'']"

text \<open>
  A client that inspects every volume with success, cannot create the container of the
  volume \<open>broken\<close>, and cannot start the one of the volume \<open>data1\<close>.
\<close>

abbreviation example_Client ::
  "error + docker_Volume list \<Rightarrow> error option \<Rightarrow> error option \<Rightarrow> docker_Client" where
  "example_Client listed inspected pulled \<equiv>
     \<lparr>ListVolumes = listed,
      InspectVolume = (\<lambda>name. Inr (listed_Volume name)),
      InspectImage = (\<lambda>image. inspected),
      PullImage = (\<lambda>image. pulled),
      CreateContainer =
        (\<lambda>config. if last (Cmd config) = ''s3://bucket/host1/broken''
                   then Inl ''no space left on device'' else Inr (last (Cmd config))),
      Start =
        (\<lambda>cid binds. if cid = ''s3://bucket/host1/data1''
                      then Fails ''cannot start'' else Ok ())\<rparr>"

abbreviation example_run :: "docker_Client \<Rightarrow> conplicity" where
  "example_run client \<equiv>
     \<lparr>Client = client, env = example_environment, Hostname = ''host1''\<rparr>"

abbreviation example_system :: "docker_Client \<Rightarrow> system" where
  "example_system client \<equiv>
     \<lparr>getEnv = example_environment, os_Hostname = Inr ''host1'',
      NewClient = (\<lambda>endpoint. Inr client)\<rparr>"

section \<open>Properties of the shared definitions\<close>

declare showNat.simps [simp del]

declare Retry.simps [simp del]

lemma showNat_small: "n < 10 \<Longrightarrow> showNat n = [''0123456789'' ! n]"
  by (subst showNat.simps) simp

lemma showNat_big:
  "10 \<le> n \<Longrightarrow> showNat n = showNat (n div 10) @ [''0123456789'' ! (n mod 10)]"
  by (subst showNat.simps) simp

lemma andThen_Returned [simp]:
  "andThen (tr, Returned x) f = (tr @ fst (f x), snd (f x))"
  by (simp add: andThen_def split: prod.splits)

lemma andThen_Exited [simp]: "andThen (tr, Exited n) f = (tr, Exited n)"
  by (simp add: andThen_def)

lemma andThen_Panicked [simp]: "andThen (tr, Panicked) f = (tr, Panicked)"
  by (simp add: andThen_def)

lemma checkErr_None [simp]: "checkErr None msg exit = ([], Returned ())"
  by (simp add: checkErr_def)

lemma checkErr_Some [simp]:
  "checkErr (Some e) msg exit =
     ([Errorf msg [e]], if exit \<noteq> - 1 then Exited exit else Returned ())"
  by (simp add: checkErr_def)

section \<open>The patterns of Status\<close>

lemma hasPrefix_prefix: "hasPrefix s p \<longleftrightarrow> prefix p s"
  by (induction s p rule: hasPrefix.induct) auto

lemma Contains_sublist: "Contains s sub \<longleftrightarrow> sublist sub s"
proof (induction s)
  case Nil
  show ?case by (cases sub) auto
next
  case (Cons c cs)
  show ?case
    by (simp add: Cons.IH hasPrefix_prefix sublist_Cons_right del: hasPrefix.simps)
qed

lemma matchAt_Some_prefix: "matchAt lit s = Some g \<Longrightarrow> prefix lit s"
  by (auto simp: matchAt_def hasPrefix_prefix split: if_splits)


lemma FindStringSubmatch_shape:
  "FindStringSubmatch lit s = [] \<or> (\<exists>g. g \<noteq> [] \<and> FindStringSubmatch lit s = [lit @ g, g])"
  by (induction s) (auto simp: matchAt_def split: option.splits if_splits list.splits)

lemma matchAt_here:
  assumes "g \<noteq> []" "CHR 0x0A \<notin> set g" "post = [] \<or> hd post = CHR 0x0A"
  shows "matchAt lit (lit @ g @ post) = Some g"
proof -
  have "takeWhile (\<lambda>c. c \<noteq> CHR 0x0A) (g @ post) = g"
    using assms by (cases post) (auto simp: takeWhile_tail takeWhile_eq_all_conv)
  with assms(1) show ?thesis
    by (cases g) (auto simp: matchAt_def hasPrefix_prefix)
qed

lemma no_early_prefix:
  assumes "\<not> sublist lit (p # ps)" "lit \<noteq> []" "hd lit \<notin> set (tl lit)"
  shows "\<not> prefix lit ((p # ps) @ lit @ rest)"
proof
  assume pre: "prefix lit ((p # ps) @ lit @ rest)"
  show False
  proof (cases "length lit \<le> length (p # ps)")
    case True
    with pre have "prefix lit (p # ps)"
      by (metis prefix_length_prefix prefixI)
    then show False using assms(1) by (simp add: prefix_imp_sublist)
  next
    case False
    then obtain x where lit: "lit = (p # ps) @ x" and x: "x \<noteq> []"
      using pre by (metis append_eq_append_conv_if append_take_drop_id prefix_def drop_eq_Nil)
    from pre lit have "prefix x (lit @ rest)" by (metis same_prefix_prefix)
    with x assms(2) have "hd x = hd lit"
      by (cases x; cases lit) auto
    moreover from lit x have "hd x \<in> set (tl lit)" by (cases x) auto
    ultimately show False using assms(3) by simp
  qed
qed

lemma FindStringSubmatch_first:
  assumes "\<not> sublist lit pre" "lit \<noteq> []" "hd lit \<notin> set (tl lit)"
    and "g \<noteq> []" "CHR 0x0A \<notin> set g" "post = [] \<or> hd post = CHR 0x0A"
  shows "FindStringSubmatch lit (pre @ lit @ g @ post) = [lit @ g, g]"
  using assms(1)
proof (induction pre)
  case Nil
  from assms(2) obtain c cs where "lit @ g @ post = c # cs" by (cases lit) auto
  then show ?case using matchAt_here [OF assms(4-6), of lit] by simp
next
  case (Cons p ps)
  have "matchAt lit ((p # ps) @ lit @ g @ post) = None"
  proof (cases "matchAt lit ((p # ps) @ lit @ g @ post)")
    case (Some a)
    then have "prefix lit ((p # ps) @ lit @ g @ post)" by (rule matchAt_Some_prefix)
    with no_early_prefix [OF Cons.prems assms(2,3)] show ?thesis by blast
  qed simp
  moreover have "\<not> sublist lit ps"
    using Cons.prems by (auto simp: sublist_Cons_right)
  ultimately show ?case using Cons.IH by simp
qed

lemma markers_unique:
  "fullBackupRx \<noteq> []" "hd fullBackupRx \<notin> set (tl fullBackupRx)"
  "chainEndTimeRx \<noteq> []" "hd chainEndTimeRx \<notin> set (tl chainEndTimeRx)"
  by (simp_all add: fullBackupRx_def chainEndTimeRx_def)

section \<open>Status reads the two dates\<close>

text \<open>
  C2. The output holds a line with \<open>Last full backup date: \<close> followed by \<open>t1\<close>, and a line
  with \<open>Chain end time: \<close> followed by \<open>t2\<close>; each is the first place where its marker
  stands, \<open>t1\<close> and \<open>t2\<close> run to the end of their lines, and both parse under the fixed
  format, to the times \<open>u1\<close> and \<open>u2\<close>. Then Status returns no error and exactly two
  metrics: \<open>lastBackup\<close> with the epoch seconds of the chain end time, and
  \<open>lastFullBackup\<close> with the epoch seconds of the last full backup date. Nothing is logged.
\<close>

theorem Status_both_markers:
  assumes launch:
      "LaunchDuplicity
         [''collection-status'', ''--s3-use-new-style'',
          ''--ssh-options'', ''-oStrictHostKeyChecking=no'', ''--no-encryption'',
          ''--name'', Volume.Name v, Target v]
         [Mount v, cacheMount] = (state, stdout, None)"
    and full: "stdout = pre1 @ ''Last full backup date: '' @ t1 @ post1"
      "\<not> sublist ''Last full backup date: '' pre1"
      "t1 \<noteq> []" "CHR 0x0A \<notin> set t1" "post1 = [] \<or> hd post1 = CHR 0x0A"
    and chain: "stdout = pre2 @ ''Chain end time: '' @ t2 @ post2"
      "\<not> sublist ''Chain end time: '' pre2"
      "t2 \<noteq> []" "CHR 0x0A \<notin> set t2" "post2 = [] \<or> hd post2 = CHR 0x0A"
    and parse1: "Parse lib timeFormat (TrimSpace lib t1) = Inr u1"
    and parse2: "Parse lib timeFormat (TrimSpace lib t2) = Inr u2"
  shows "Status lib LaunchDuplicity v =
           ([], Returned ([metric (Volume.Name v) ''lastBackup'' u2,
                           metric (Volume.Name v) ''lastFullBackup'' u1], None))"
proof -
  have f: "FindStringSubmatch fullBackupRx stdout = [fullBackupRx @ t1, t1]"
    using FindStringSubmatch_first [of fullBackupRx pre1 t1 post1] full markers_unique
    by (simp add: fullBackupRx_def)
  have c: "FindStringSubmatch chainEndTimeRx stdout = [chainEndTimeRx @ t2, t2]"
    using FindStringSubmatch_first [of chainEndTimeRx pre2 t2 post2] chain markers_unique
    by (simp add: chainEndTimeRx_def)
  show ?thesis
    by (simp add: Status_def launch f c time_Parse_def parse1 parse2 Unix_def)
qed

theorem Status_both_markers_witness:
  "Status example_stdlib (example_launcher 0 output_with_both_dates) example_Volume
   = ([], Returned
        ([''conplicity{volume=\"data\",what=\"lastBackup\"} 1136300646'',
          ''conplicity{volume=\"data\",what=\"lastFullBackup\"} 1136214245''], None))"
  using Status_both_markers
    [where ?pre1.0 = "[]"
      and ?t1.0 = "''Mon Jan 2 15:04:05 2006'' @ [CHR 0x0D]"
      and ?post1.0 =
        "CHR 0x0A # ''Chain start time: Mon Jan 2 15:04:05 2006'' @ [CHR 0x0D, CHR 0x0A]
         @ ''Chain end time: Tue Jan 3 15:04:06 2006'' @ [CHR 0x0D, CHR 0x0A]
         @ ''Number of contained backup sets: 2'' @ [CHR 0x0D, CHR 0x0A]"
      and ?pre2.0 =
        "''Last full backup date: Mon Jan 2 15:04:05 2006'' @ [CHR 0x0D, CHR 0x0A]
         @ ''Chain start time: Mon Jan 2 15:04:05 2006'' @ [CHR 0x0D, CHR 0x0A]"
      and ?t2.0 = "''Tue Jan 3 15:04:06 2006'' @ [CHR 0x0D]"
      and ?post2.0 = "CHR 0x0A # ''Number of contained backup sets: 2'' @ [CHR 0x0D, CHR 0x0A]"
      and lib = example_stdlib
      and ?u1.0 = 1136214245 and ?u2.0 = 1136300646
      and LaunchDuplicity = "example_launcher 0 output_with_both_dates"
      and v = example_Volume
      and state = "\<lparr>ExitCode = 0\<rparr>"]
  by (simp add: timeFormat_def metric_def itoa_def showNat_small showNat_big cacheMount_def
      Contains_sublist [symmetric])

section \<open>Status when a marker is missing\<close>






section \<open>Status when the full backup date does not parse\<close>

text \<open>
  C10. Both markers are present as in C2; the text after \<open>Last full backup date: \<close> does
  not parse (\<open>time.Parse\<close> fails with \<open>e\<close>), the text after \<open>Chain end time: \<close> does. Then
  the failure is logged and Status still returns no error and both metrics, the
  \<open>lastFullBackup\<close> one carrying the epoch seconds of the zero time.
\<close>

theorem Status_unparsed_full_backup_date:
  assumes launch:
      "LaunchDuplicity
         [''collection-status'', ''--s3-use-new-style'',
          ''--ssh-options'', ''-oStrictHostKeyChecking=no'', ''--no-encryption'',
          ''--name'', Volume.Name v, Target v]
         [Mount v, cacheMount] = (state, stdout, None)"
    and full: "stdout = pre1 @ ''Last full backup date: '' @ t1 @ post1"
      "\<not> sublist ''Last full backup date: '' pre1"
      "t1 \<noteq> []" "CHR 0x0A \<notin> set t1" "post1 = [] \<or> hd post1 = CHR 0x0A"
    and chain: "stdout = pre2 @ ''Chain end time: '' @ t2 @ post2"
      "\<not> sublist ''Chain end time: '' pre2"
      "t2 \<noteq> []" "CHR 0x0A \<notin> set t2" "post2 = [] \<or> hd post2 = CHR 0x0A"
    and parse1: "Parse lib timeFormat (TrimSpace lib t1) = Inl e"
    and parse2: "Parse lib timeFormat (TrimSpace lib t2) = Inr u2"
  shows "Status lib LaunchDuplicity v =
           ([Errorf ''Failed to parse full backup date: %v'' [e]],
            Returned ([metric (Volume.Name v) ''lastBackup'' u2,
                       metric (Volume.Name v) ''lastFullBackup'' (Unix zeroTime)], None))"
proof -
  have f: "FindStringSubmatch fullBackupRx stdout = [fullBackupRx @ t1, t1]"
    using FindStringSubmatch_first [of fullBackupRx pre1 t1 post1] full markers_unique
    by (simp add: fullBackupRx_def)
  have c: "FindStringSubmatch chainEndTimeRx stdout = [chainEndTimeRx @ t2, t2]"
    using FindStringSubmatch_first [of chainEndTimeRx pre2 t2 post2] chain markers_unique
    by (simp add: chainEndTimeRx_def)
  show ?thesis
    by (simp add: Status_def launch f c time_Parse_def parse1 parse2 Unix_def)
qed

theorem Status_unparsed_full_backup_date_witness:
  "Status
     example_stdlib
     (example_launcher 0 output_with_unparsed_date)
     example_Volume
   = ([Errorf ''Failed to parse full backup date: %v'' [''cannot parse'']],
      Returned
        ([''conplicity{volume=\"data\",what=\"lastBackup\"} 1136300646'',
          ''conplicity{volume=\"data\",what=\"lastFullBackup\"} -62135596800''], None))"
  using Status_unparsed_full_backup_date
    [where ?pre1.0 = "[]" and ?t1.0 = "''none''"
      and ?post1.0 = "''\<newline>Chain end time: Tue Jan 3 15:04:06 2006\<newline>''"
      and ?pre2.0 = "''Last full backup date: none\<newline>''"
      and ?t2.0 = "''Tue Jan 3 15:04:06 2006''"
      and ?post2.0 = "''\<newline>''"
      and lib = "example_stdlib"
      and e = "''cannot parse''" and ?u2.0 = 1136300646
      and LaunchDuplicity = "example_launcher 0 output_with_unparsed_date"
      and v = "example_Volume"
      and state = "\<lparr>ExitCode = 0\<rparr>"]
  by (simp add: timeFormat_def metric_def itoa_def showNat_small showNat_big cacheMount_def
        Unix_def zeroTime_def Contains_sublist [symmetric])

section \<open>Exit codes, metrics and errors\<close>

lemma resticBackup_result:
  assumes "launchRestic fuel (Handler r) [''-r'', Target (Volume r), ''backup'', BackupDir (Volume r)]
             [Mount (Volume r)] = Some (tr, Returned (code, out, err))"
  shows "resticBackup fuel r =
           Some (tr, Returned
             (if code \<noteq> 0
              then Some (''Restic exited with state '' @ itoa code @ '' while backuping the volume'')
              else if err = None then None
              else Some (''failed to launch Restic to backup the volume: '' @ the err)))"
  using assms by (simp add: resticBackup_def Let_def)

lemmas launch_eval =
  launchRestic_def runContainer_def deferred_def Let_def numeral_2_eq_2

text \<open>
  C1, as the code has it. When the launch itself succeeds, \<open>Backup\<close> and \<open>Verify\<close> of
  volume.go return exactly one metric, whose value is the exit code of the worker (0 for
  a worker that exits with 0, \<open>c\<close> for one that exits with \<open>c\<close>), and no error in either
  case. \<open>resticBackup\<close> returns an error only: none when the launch succeeds and the worker
  exits with 0, and an error carrying the code when the worker exits with a code other
  than 0.
\<close>

theorem exit_code_reporting:
  "(LaunchDuplicity
      [''--full-if-older-than'', Volume.FullIfOlderThan v, ''--s3-use-new-style'',
       ''--ssh-options'', ''-oStrictHostKeyChecking=no'', ''--no-encryption'',
       ''--allow-source-mismatch'', ''--name'', Volume.Name v, BackupDir v, Target v]
      [Mount v, cacheMount] = (state, stdout, None) \<longrightarrow>
    Backup LaunchDuplicity v =
      ([], Returned ([metric (Volume.Name v) ''backupExitCode'' (ExitCode state)], None)))
   \<and> (LaunchDuplicity
      [''verify'', ''--s3-use-new-style'',
       ''--ssh-options'', ''-oStrictHostKeyChecking=no'', ''--no-encryption'',
       ''--allow-source-mismatch'', ''--name'', Volume.Name v, Target v, BackupDir v]
      [Mount v, cacheMount] = (state', stdout', None) \<longrightarrow>
    Verify LaunchDuplicity v =
      ([], Returned ([metric (Volume.Name v) ''verifyExitCode'' (ExitCode state')], None)))
   \<and> (launchRestic fuel (Handler r)
        [''-r'', Target (Volume r), ''backup'', BackupDir (Volume r)] [Mount (Volume r)]
        = Some (tr, Returned (0, out, None)) \<longrightarrow>
      resticBackup fuel r = Some (tr, Returned None))
   \<and> (launchRestic fuel (Handler r)
        [''-r'', Target (Volume r), ''backup'', BackupDir (Volume r)] [Mount (Volume r)]
        = Some (tr, Returned (code, out, err)) \<and> code \<noteq> 0 \<longrightarrow>
      resticBackup fuel r =
        Some (tr, Returned
          (Some (''Restic exited with state '' @ itoa code @ '' while backuping the volume''))))"
  by (simp add: Backup_def Verify_def resticBackup_result)

theorem exit_code_reporting_witness:
  "Backup
     (example_launcher 0 ''Errors 0'')
     example_Volume
   = ([], Returned ([''conplicity{volume=\"data\",what=\"backupExitCode\"} 0''], None))
   \<and> Verify
     (example_launcher 3 ''Errors 3'')
     example_Volume
   = ([], Returned ([''conplicity{volume=\"data\",what=\"verifyExitCode\"} 3''], None))
   \<and> map_option snd (resticBackup 2
     (example_engine (Ok ()) 0 ''snapshot 40dc1520 saved''))
   = Some (Returned None)
   \<and> map_option snd (resticBackup 2
     (example_engine (Ok ()) 1 ''Fatal: unable to open repo''))
   = Some (Returned (Some ''Restic exited with state 1 while backuping the volume''))"
proof -
  let ?v = "example_Volume"
  let ?r0 = "example_engine (Ok ()) 0 ''snapshot 40dc1520 saved''"
  let ?r1 = "example_engine (Ok ()) 1 ''Fatal: unable to open repo''"
  let ?cmd = "[''-r'', ''s3://bucket/host/data'', ''backup'', ''/var/backups'']"
  let ?binds = "[''data:/var/backups:ro'']"
  have l0: "launchRestic 2 (Handler ?r0) ?cmd ?binds =
      Some (fst (the (launchRestic 2 (Handler ?r0) ?cmd ?binds)),
            Returned (0, ''snapshot 40dc1520 saved'', None))"
    by (simp add: launch_eval)
  have l1: "launchRestic 2 (Handler ?r1) ?cmd ?binds =
      Some (fst (the (launchRestic 2 (Handler ?r1) ?cmd ?binds)),
            Returned (1, ''Fatal: unable to open repo'', None))"
    by (simp add: launch_eval)
  have a: "Backup (example_launcher 0 ''Errors 0'') ?v
     = ([], Returned ([''conplicity{volume=\"data\",what=\"backupExitCode\"} 0''], None))"
    using exit_code_reporting
      [where LaunchDuplicity = "example_launcher 0 ''Errors 0''"
        and v = ?v and state = "\<lparr>ExitCode = 0\<rparr>" and stdout = "''Errors 0''"]
    by (simp add: metric_def itoa_def showNat_small)
  have b: "Verify (example_launcher 3 ''Errors 3'') ?v
     = ([], Returned ([''conplicity{volume=\"data\",what=\"verifyExitCode\"} 3''], None))"
    using exit_code_reporting
      [where LaunchDuplicity = "example_launcher 3 ''Errors 3''"
        and v = ?v and state' = "\<lparr>ExitCode = 3\<rparr>" and stdout' = "''Errors 3''"]
    by (simp add: metric_def itoa_def showNat_small)
  have c: "map_option snd (resticBackup 2 ?r0) = Some (Returned None)"
    using l0 exit_code_reporting
      [where r = ?r0 and fuel = 2 and out = "''snapshot 40dc1520 saved''"
        and tr = "fst (the (launchRestic 2 (Handler ?r0) ?cmd ?binds))"]
    by simp
  have d: "map_option snd (resticBackup 2 ?r1)
     = Some (Returned (Some ''Restic exited with state 1 while backuping the volume''))"
    using l1 exit_code_reporting
      [where r = ?r1 and fuel = 2 and out = "''Fatal: unable to open repo''"
        and code = 1 and err = None
        and tr = "fst (the (launchRestic 2 (Handler ?r1) ?cmd ?binds))"]
    by (simp add: itoa_def showNat_small)
  from a b c d show ?thesis by blast
qed

text \<open>
  A worker that exits with code 2: \<open>Backup\<close> returns the metric with value 2, and no
  error with it.
\<close>

theorem Backup_exit_code_counterexample:
  "Backup
     (example_launcher 2 ''Errors 1'')
     example_Volume
   = ([], Returned ([''conplicity{volume=\"data\",what=\"backupExitCode\"} 2''], None))"
  by (simp add: Backup_def metric_def itoa_def showNat_small)

section \<open>Initialization of a repository that exists\<close>

text \<open>A launch that returns an error returns no output with it.\<close>

lemma launchRestic_error_stdout:
  "launchRestic fuel h cmd binds = Some (tr, Returned (state, stdout, Some e)) \<Longrightarrow> stdout = []"
  by (auto simp: launchRestic_def runContainer_def deferred_def Let_def
      split: option.splits sum.splits reply.splits prod.splits outcome.splits)

text \<open>
  C9. Whenever the launch of the initialization step returns and its output contains
  \<open>already initialized\<close>, \<open>init\<close> returns no error, whatever the exit code and the error
  of the launch are: the output is looked at first.
\<close>

theorem init_already_initialized:
  assumes "launchRestic fuel (Handler r) [''-r'', Target (Volume r), ''init''] [Mount (Volume r)]
             = Some (tr, Returned (state, stdout, err))"
    and "sublist ''already initialized'' stdout"
  shows "init fuel r = Some (tr, Returned None)"
  using assms by (simp add: init_def Let_def Contains_sublist)

theorem init_already_initialized_witness:
  "sublist ''already initialized'' ''Fatal: config already initialized''
   \<and> map_option (\<lambda>m. (removals (fst m), snd m)) (init 2
     (example_engine (Ok ()) 1 ''Fatal: config already initialized''))
   = Some ([(''c1'', True)], Returned None)"
proof -
  let ?r = "example_engine (Ok ()) 1 ''Fatal: config already initialized''"
  let ?cmd = "[''-r'', ''s3://bucket/host/data'', ''init'']"
  let ?binds = "[''data:/var/backups:ro'']"
  have l: "launchRestic 2 (Handler ?r) ?cmd ?binds =
      Some (fst (the (launchRestic 2 (Handler ?r) ?cmd ?binds)),
            Returned (1, ''Fatal: config already initialized'', None))"
    by (simp add: launch_eval)
  have r: "removals (fst (the (launchRestic 2 (Handler ?r) ?cmd ?binds))) = [(''c1'', True)]"
    by (simp add: launch_eval)
  have s: "sublist ''already initialized'' ''Fatal: config already initialized''"
    by (simp add: Contains_sublist [symmetric])
  have "init 2 ?r = Some (fst (the (launchRestic 2 (Handler ?r) ?cmd ?binds)), Returned None)"
    using l s init_already_initialized
      [where r = ?r and fuel = 2 and stdout = "''Fatal: config already initialized''"
        and state = 1 and err = None
        and tr = "fst (the (launchRestic 2 (Handler ?r) ?cmd ?binds))"]
    by simp
  with r s show ?thesis by simp
qed

section \<open>The retry policy: number of invocations\<close>

text \<open>
  The operation of these statements keeps count of its invocations: its state is the
  number of invocations made so far, and \<open>res i\<close> is the result of invocation number
  \<open>i\<close>, counted from 0. The state after \<open>Retry\<close> is the number of invocations made.
\<close>

lemma Retry_fails_then_succeeds:
  "\<lbrakk>\<forall>i<k. res (j + i) \<noteq> None; res (j + k) = None; k < n\<rbrakk>
   \<Longrightarrow> Retry n (\<lambda>i. (res i, Suc i)) j = (None, j + k + 1)"
proof (induction k arbitrary: j n)
  case 0
  then show ?case by (subst Retry.simps) simp
next
  case (Suc k)
  from Suc.prems(1) obtain e where e: "res j = Some e" by force
  have "\<forall>i<k. res (Suc j + i) \<noteq> None" using Suc.prems(1) by force
  moreover have "res (Suc j + k) = None" using Suc.prems(2) by simp
  moreover have "k < n - 1" using Suc.prems(3) by simp
  ultimately have "Retry (n - 1) (\<lambda>i. (res i, Suc i)) (Suc j) = (None, Suc j + k + 1)"
    by (rule Suc.IH)
  then show ?case using e Suc.prems(3) by (subst Retry.simps) simp
qed

lemma Retry_always_fails:
  "\<lbrakk>\<forall>i<n. res (j + i) \<noteq> None; 1 \<le> n\<rbrakk>
   \<Longrightarrow> Retry n (\<lambda>i. (res i, Suc i)) j = (res (j + n - 1), j + n)"
proof (induction n arbitrary: j)
  case 0
  then show ?case by simp
next
  case (Suc n)
  from Suc.prems(1) obtain e where e: "res j = Some e" by force
  show ?case
  proof (cases "n = 0")
    case True
    then show ?thesis using e by (subst Retry.simps) simp
  next
    case False
    have "\<forall>i<n. res (Suc j + i) \<noteq> None" using Suc.prems(1) by force
    with False have "Retry n (\<lambda>i. (res i, Suc i)) (Suc j) = (res (Suc j + n - 1), Suc j + n)"
      by (intro Suc.IH) simp_all
    then show ?thesis using e False by (subst Retry.simps) simp
  qed
qed

text \<open>
  C5. For \<open>n \<ge> 1\<close>: an operation that fails exactly \<open>k < n\<close> times and then succeeds
  makes \<open>Retry n\<close> return no error after exactly \<open>k + 1\<close> invocations; an operation that
  always fails makes it return an error, the one of the last attempt, after exactly \<open>n\<close>
  invocations.
\<close>

theorem Retry_invocations:
  "(1 \<le> n \<and> k < n \<and> (\<forall>i<k. res i \<noteq> None) \<and> res k = None \<longrightarrow>
      Retry n (\<lambda>i. (res i, Suc i)) 0 = (None, k + 1))
   \<and> (1 \<le> n \<and> (\<forall>i. res i \<noteq> None) \<longrightarrow>
      fst (Retry n (\<lambda>i. (res i, Suc i)) 0) \<noteq> None
      \<and> fst (Retry n (\<lambda>i. (res i, Suc i)) 0) = res (n - 1)
      \<and> snd (Retry n (\<lambda>i. (res i, Suc i)) 0) = n)"
  using Retry_fails_then_succeeds [of k res 0 n] Retry_always_fails [of n res 0]
  by simp

theorem Retry_invocations_witness:
  "Retry 3 (\<lambda>i. ((\<lambda>i. if i < 2 then Some ''connection refused'' else None) i, Suc i)) 0
     = (None, 3)
   \<and> Retry 3 (\<lambda>i. ((\<lambda>i. Some ''connection refused'') i, Suc i)) 0
     = (Some ''connection refused'', 3)"
  using Retry_invocations [of 3 2 "\<lambda>i. if i < 2 then Some ''connection refused'' else None"]
    Retry_invocations [of 3 2 "\<lambda>i. Some ''connection refused''"]
  by (simp add: prod_eq_iff)

section \<open>One volume: the three ways through backupVolume\<close>

lemma removals_append [simp]: "removals (xs @ ys) = removals xs @ removals ys"
  by (induction xs rule: removals.induct) simp_all

lemma createdWorkers_append [simp]:
  "createdWorkers (xs @ ys) = createdWorkers xs @ createdWorkers ys"
  by (induction xs rule: createdWorkers.induct) simp_all

lemma ignore_label:
  "getVolumeLabel vol ''.ignore'' = ''true'' \<longleftrightarrow> Labels vol ''io.conplicity.ignore'' = Some ''true''"
  by (simp add: getVolumeLabel_def labelPrefix_def split: option.splits)

lemma backupVolume_skipped:
  assumes "RuneCountInString (docker_Volume.Name vol) = 64
           \<or> Labels vol ''io.conplicity.ignore'' = Some ''true''"
  shows "backupVolume c (Some vol) =
           ([Infof ((if RuneCountInString (docker_Volume.Name vol) = 64
                     then ''Ignoring unnamed volume '' else ''Ignoring blacklisted volume '')
                    @ docker_Volume.Name vol) []],
            Returned None)"
  using assms by (auto simp: backupVolume_def ignore_label)

lemma backupVolume_create_fails:
  assumes "RuneCountInString (docker_Volume.Name vol) \<noteq> 64"
    and "Labels vol ''io.conplicity.ignore'' \<noteq> Some ''true''"
    and "CreateContainer (Client c) (containerConfig c vol) = Inl e"
  shows "backupVolume c (Some vol) =
           ([Infof (''ID: '' @ docker_Volume.Name vol) [],
             Infof (''Driver: '' @ Driver vol) [],
             Infof (''Mountpoint: '' @ Mountpoint vol) [],
             Infof ''Creating duplicity container...'' [],
             Created (containerConfig c vol) [] (Inl e),
             Errorf (''Failed to create container for volume '' @ docker_Volume.Name vol
                     @ '': %v'') [e]],
            Exited 1)"
  using assms by (simp add: backupVolume_def ignore_label errOf_def)

lemma backupVolume_created:
  assumes "RuneCountInString (docker_Volume.Name vol) \<noteq> 64"
    and "Labels vol ''io.conplicity.ignore'' \<noteq> Some ''true''"
    and "CreateContainer (Client c) (containerConfig c vol) = Inr cid"
  shows "backupVolume c (Some vol) =
           ([Infof (''ID: '' @ docker_Volume.Name vol) [],
             Infof (''Driver: '' @ Driver vol) [],
             Infof (''Mountpoint: '' @ Mountpoint vol) [],
             Infof ''Creating duplicity container...'' [],
             Created (containerConfig c vol) [] (Inr cid),
             Started cid [Mountpoint vol @ '':/var/backups:ro'']]
            @ (case Start (Client c) cid [Mountpoint vol @ '':/var/backups:ro''] of
                 Fails e \<Rightarrow>
                   [Errorf (''Failed to start container for volume '' @ docker_Volume.Name vol
                            @ '': %v'') [e]]
               | Ok u \<Rightarrow> []
               | Panics \<Rightarrow> [])
            @ [Removed cid True],
            (case Start (Client c) cid [Mountpoint vol @ '':/var/backups:ro''] of
               Fails e \<Rightarrow> Returned (Some e)
             | Ok u \<Rightarrow> Returned None
             | Panics \<Rightarrow> Panicked))"
  using assms
  by (simp add: backupVolume_def ignore_label errOf_def deferred_def Let_def
      split: reply.splits)

lemmas rune_eval = runeLen_def Let_def

section \<open>Volumes that are skipped\<close>

text \<open>
  C6. A volume whose name has 64 characters, or whose label \<open>io.conplicity.ignore\<close> is
  \<open>true\<close>, is skipped: \<open>backupVolume\<close> logs one line and returns no error, and the
  iteration of the loop that inspects such a volume asks for no container.
\<close>

theorem backupVolume_skips:
  assumes "RuneCountInString (docker_Volume.Name vol) = 64
           \<or> Labels vol ''io.conplicity.ignore'' = Some ''true''"
  shows "backupVolume c (Some vol) =
           ([Infof ((if RuneCountInString (docker_Volume.Name vol) = 64
                     then ''Ignoring unnamed volume '' else ''Ignoring blacklisted volume '')
                    @ docker_Volume.Name vol) []],
            Returned None)
         \<and> (InspectVolume (Client c) (docker_Volume.Name v) = Inr vol \<longrightarrow>
              [cfg. Created cfg binds r \<leftarrow> fst (loopBody c err v)] = []
              \<and> [cid. Started cid binds \<leftarrow> fst (loopBody c err v)] = []
              \<and> snd (loopBody c err v) = Returned None)"
  using backupVolume_skipped [OF assms, of c]
  by (cases err) (simp_all add: loopBody_def)

theorem backupVolume_skips_witness:
  "backupVolume
     (example_conplicity (Ok ()))
     (Some (example_docker_Volume anonymous_name Map.empty))
   = ([Infof (''Ignoring unnamed volume '' @ anonymous_name) []], Returned None)
   \<and> backupVolume
     (example_conplicity (Ok ()))
     (Some (example_docker_Volume ''cache'' [''io.conplicity.ignore'' \<mapsto> ''true'']))
   = ([Infof ''Ignoring blacklisted volume cache'' []], Returned None)"
  using backupVolume_skips
      [where c = "example_conplicity (Ok ())"
        and vol = "example_docker_Volume anonymous_name Map.empty"]
    backupVolume_skips
      [where c = "example_conplicity (Ok ())"
        and vol = "example_docker_Volume ''cache'' [''io.conplicity.ignore'' \<mapsto> ''true'']"]
  by (simp add: rune_eval)

section \<open>The threshold in the command\<close>

text \<open>
  C7, as the code has it. For a volume that is not skipped, exactly one command is built.
  Its threshold is the value of the label \<open>io.conplicity.full_if_older_than\<close> when the
  volume carries the label with a value that is not empty, and the default of the
  configuration when the volume does not carry the label or carries it with the empty
  value.
\<close>

theorem threshold_in_command:
  assumes "RuneCountInString (docker_Volume.Name vol) \<noteq> 64"
    and "Labels vol ''io.conplicity.ignore'' \<noteq> Some ''true''"
  shows "[Cmd cfg. Created cfg binds r \<leftarrow> fst (backupVolume c (Some vol))] =
           [[''--full-if-older-than'',
             (case Labels vol ''io.conplicity.full_if_older_than'' of
                None \<Rightarrow> environment.FullIfOlderThan (env c)
              | Some l \<Rightarrow> if l = [] then environment.FullIfOlderThan (env c) else l),
             ''--s3-use-new-style'',
             ''--no-encryption'',
             ''--allow-source-mismatch'',
             ''/var/backups'',
             DuplicityTargetURL (env c) @ ''/'' @ Hostname c @ ''/'' @ docker_Volume.Name vol]]"
proof (cases "CreateContainer (Client c) (containerConfig c vol)")
  case (Inl e)
  show ?thesis
    by (simp add: backupVolume_create_fails [OF assms Inl] containerConfig_def
        fullIfOlderThan_def getVolumeLabel_def labelPrefix_def split: option.splits)
next
  case (Inr cid)
  show ?thesis
    by (cases "Start (Client c) cid [Mountpoint vol @ '':/var/backups:ro'']")
      (simp_all add: backupVolume_created [OF assms Inr] containerConfig_def
        fullIfOlderThan_def getVolumeLabel_def labelPrefix_def split: option.splits)
qed

theorem threshold_in_command_witness:
  "map (\<lambda>cmd. cmd ! 1)
     [Cmd cfg. Created cfg binds r \<leftarrow> fst (backupVolume
       (example_conplicity (Ok ()))
       (Some (example_docker_Volume ''data'' [''io.conplicity.full_if_older_than'' \<mapsto> ''3D''])))]
   = [''3D'']
   \<and> map (\<lambda>cmd. cmd ! 1)
     [Cmd cfg. Created cfg binds r \<leftarrow> fst (backupVolume
       (example_conplicity (Ok ()))
       (Some (example_docker_Volume ''data'' Map.empty)))]
   = [''15D'']"
  using threshold_in_command
      [where c = "example_conplicity (Ok ())"
        and vol = "example_docker_Volume ''data'' [''io.conplicity.full_if_older_than'' \<mapsto> ''3D'']"]
    threshold_in_command
      [where c = "example_conplicity (Ok ())"
        and vol = "example_docker_Volume ''data'' Map.empty"]
  by (simp add: rune_eval)

text \<open>
  A volume that carries the label with the empty value: the threshold of its command is
  the default, \<open>15D\<close>, and not the value of the label.
\<close>

theorem threshold_empty_label_counterexample:
  "Labels
     (example_docker_Volume ''data'' [''io.conplicity.full_if_older_than'' \<mapsto> []])
     ''io.conplicity.full_if_older_than'' = Some []
   \<and> map (\<lambda>cmd. cmd ! 1)
     [Cmd cfg. Created cfg binds r \<leftarrow> fst (backupVolume
       (example_conplicity (Ok ()))
       (Some (example_docker_Volume ''data'' [''io.conplicity.full_if_older_than'' \<mapsto> []])))]
   = [''15D'']"
  by (simp add: backupVolume_def rune_eval getVolumeLabel_def labelPrefix_def containerConfig_def
      fullIfOlderThan_def errOf_def deferred_def)

section \<open>Removal of the container\<close>

text \<open>
  The loop that waits for the container ends, and \<open>launchRestic\<close> returns or panics, as
  soon as one inspection fails or reports the state \<open>exited\<close>: \<open>k + 1\<close> inspections are
  enough when inspection number \<open>k\<close> is such a one.
\<close>

lemma pollExited_enough:
  assumes "case ContainerInspect h cid (n + k) of
             Ok (status, exitCode) \<Rightarrow> status = ''exited'' | Fails e \<Rightarrow> True | Panics \<Rightarrow> True"
  shows "pollExited (Suc k) h cid n \<noteq> None"
  using assms
proof (induction k arbitrary: n)
  case 0
  then show ?case by (auto split: reply.splits)
next
  case (Suc k)
  from Suc.prems have "pollExited (Suc k) h cid (Suc n) \<noteq> None"
    by (intro Suc.IH) simp
  then show ?case
    by (subst pollExited.simps) (auto split: reply.splits)
qed

lemma launchRestic_returns:
  assumes "\<forall>cid. case ContainerInspect h cid k of
             Ok (status, exitCode) \<Rightarrow> status = ''exited'' | Fails e \<Rightarrow> True | Panics \<Rightarrow> True"
  shows "launchRestic (Suc k) h cmd binds \<noteq> None"
proof -
  have "runContainer (Suc k) h cmd cid \<noteq> None" for cid
  proof -
    have "pollExited (Suc k) h cid 0 \<noteq> None"
      using assms pollExited_enough [of h cid 0 k] by simp
    then obtain y where "pollExited (Suc k) h cid 0 = Some y" by blast
    then show ?thesis
      unfolding runContainer_def Let_def
      by (auto split: reply.splits simp del: pollExited.simps)
  qed
  moreover have "\<exists>cid. runContainer (Suc k) h cmd cid = None"
    if "launchRestic (Suc k) h cmd binds = None"
    using that by (simp add: launchRestic_def Let_def split: option.splits sum.splits) blast
  ultimately show ?thesis by blast
qed

lemma runContainer_trace:
  assumes "runContainer fuel h cmd cid = Some m"
  shows "removals (fst m) = [] \<and> createdWorkers (fst m) = [] \<and> (\<forall>n. snd m \<noteq> Exited n)"
  using assms
  by (auto simp: runContainer_def deferred_def Let_def
      split: reply.splits option.splits)

lemma launchRestic_created:
  assumes "util_PullImage h (Restic_Image (Config h)) = None"
    and "launchRestic fuel h cmd binds = Some (tr, out)"
  shows "\<exists>config r pre.
           createdWorkers pre = [] \<and> removals pre = [] \<and>
           (case r of
              Inl e \<Rightarrow> tr = pre @ [Created config binds r]
            | Inr cid \<Rightarrow>
                (\<exists>m. runContainer fuel h cmd cid = Some m
                     \<and> tr = pre @ [Created config binds r] @ fst m @ [Removed cid True]))"
proof -
  let ?env = "[''AWS_ACCESS_KEY_ID='' @ AWS_AccessKeyID (Config h),
               ''AWS_SECRET_ACCESS_KEY='' @ AWS_SecretAccessKey (Config h),
               ''OS_USERNAME='' @ Swift_Username (Config h),
               ''OS_PASSWORD='' @ Swift_Password (Config h),
               ''OS_AUTH_URL='' @ Swift_AuthURL (Config h),
               ''OS_TENANT_NAME='' @ Swift_TenantName (Config h),
               ''OS_REGION_NAME='' @ Swift_RegionName (Config h),
               ''RESTIC_PASSWORD='' @ Restic_Password (Config h)]"
  let ?config = "\<lparr>Cmd = cmd, Env = ?env, docker_Config.Image = Restic_Image (Config h),
                  OpenStdin = True, StdinOnce = True, AttachStdin = True,
                  AttachStdout = True, AttachStderr = True, Tty = True\<rparr>"
  let ?pre = "[Debugf ''Creating container''
                 [Restic_Image (Config h), Join cmd '' '', Join ?env '', '', Join binds '', '']]"
  show ?thesis
  proof (cases "ContainerCreate h ?config binds")
    case (Inl e)
    with assms have "tr = ?pre @ [Created ?config binds (Inl e)]"
      by (simp add: launchRestic_def Let_def)
    then show ?thesis
      by (intro exI [of _ ?config] exI [of _ "Inl e"] exI [of _ ?pre]) simp
  next
    case (Inr cid)
    with assms obtain m where m: "runContainer fuel h cmd cid = Some m"
      and "(tr, out) = deferred [Removed cid True]
             (?pre @ [Created ?config binds (Inr cid)] @ fst m, snd m)"
      by (auto simp: launchRestic_def Let_def)
    with runContainer_trace [OF m]
    have "tr = ?pre @ [Created ?config binds (Inr cid)] @ fst m @ [Removed cid True]"
      by (cases "snd m") (simp_all add: deferred_def)
    with m show ?thesis
      by (intro exI [of _ ?config] exI [of _ "Inr cid"] exI [of _ ?pre]) simp
  qed
qed

lemma launchRestic_removals:
  assumes "launchRestic fuel h cmd binds = Some (tr, out)"
  shows "removals tr = map (\<lambda>cid. (cid, True)) (createdWorkers tr)
         \<and> length (createdWorkers tr) \<le> 1
         \<and> (\<forall>cid. createdWorkers tr = [cid] \<longrightarrow> last tr = Removed cid True)"
proof (cases "util_PullImage h (Restic_Image (Config h))")
  case (Some e)
  with assms have "tr = []" by (simp add: launchRestic_def)
  then show ?thesis by simp
next
  case None
  from launchRestic_created [OF None assms] obtain config r pre where
    pre: "createdWorkers pre = []" "removals pre = []"
    and r: "case r of
              Inl e \<Rightarrow> tr = pre @ [Created config binds r]
            | Inr cid \<Rightarrow>
                (\<exists>m. runContainer fuel h cmd cid = Some m
                     \<and> tr = pre @ [Created config binds r] @ fst m @ [Removed cid True])"
    by blast
  show ?thesis
  proof (cases r)
    case (Inl e)
    with r pre show ?thesis by simp
  next
    case (Inr cid)
    with r obtain m where m: "runContainer fuel h cmd cid = Some m"
      and tr: "tr = pre @ [Created config binds (Inr cid)] @ fst m @ [Removed cid True]"
      by auto
    from runContainer_trace [OF m] pre show ?thesis
      by (simp add: tr)
  qed
qed

lemma backupVolume_removals:
  "removals (fst (backupVolume c voll)) =
     map (\<lambda>cid. (cid, True)) (createdWorkers (fst (backupVolume c voll)))
   \<and> length (createdWorkers (fst (backupVolume c voll))) \<le> 1
   \<and> (\<forall>cid. createdWorkers (fst (backupVolume c voll)) = [cid] \<longrightarrow>
         last (fst (backupVolume c voll)) = Removed cid True)"
proof (cases voll)
  case None
  then show ?thesis by (simp add: backupVolume_def)
next
  case (Some vol)
  show ?thesis
  proof (cases "RuneCountInString (docker_Volume.Name vol) = 64
                \<or> Labels vol ''io.conplicity.ignore'' = Some ''true''")
    case True
    then show ?thesis unfolding Some by (simp add: backupVolume_skipped)
  next
    case False
    then have ns: "RuneCountInString (docker_Volume.Name vol) \<noteq> 64"
      "Labels vol ''io.conplicity.ignore'' \<noteq> Some ''true''" by simp_all
    show ?thesis
    proof (cases "CreateContainer (Client c) (containerConfig c vol)")
      case (Inl e)
      show ?thesis unfolding Some by (simp add: backupVolume_create_fails [OF ns Inl])
    next
      case (Inr cid)
      show ?thesis unfolding Some
        by (cases "Start (Client c) cid [Mountpoint vol @ '':/var/backups:ro'']")
          (simp_all add: backupVolume_created [OF ns Inr])
    qed
  qed
qed

text \<open>
  C8. In \<open>backupVolume\<close> and in \<open>launchRestic\<close>, whatever the runtime replies and
  however the function ends (it returns without an error, it returns an error, it
  panics): the removals made are the forced removals of exactly the containers that were
  successfully created, each once; at most one container is created, and when one is,
  its removal is the last thing the function does.
\<close>

theorem removal_exactly_once:
  "removals (fst (backupVolume c voll)) =
     map (\<lambda>cid. (cid, True)) (createdWorkers (fst (backupVolume c voll)))
   \<and> length (createdWorkers (fst (backupVolume c voll))) \<le> 1
   \<and> (\<forall>cid. createdWorkers (fst (backupVolume c voll)) = [cid] \<longrightarrow>
         last (fst (backupVolume c voll)) = Removed cid True)
   \<and> (launchRestic fuel h cmd binds = Some (tr, out) \<longrightarrow>
         removals tr = map (\<lambda>cid. (cid, True)) (createdWorkers tr)
         \<and> length (createdWorkers tr) \<le> 1
         \<and> (\<forall>cid. createdWorkers tr = [cid] \<longrightarrow> last tr = Removed cid True))"
  using backupVolume_removals [of c voll] launchRestic_removals [of fuel h cmd binds tr out]
  by blast

theorem removal_exactly_once_witness:
  "fst (backupVolume
     (example_conplicity Panics)
     (Some (example_docker_Volume ''data'' Map.empty)))
   = [Infof ''ID: data'' [],
      Infof ''Driver: local'' [],
      Infof ''Mountpoint: /var/lib/docker/volumes/data/_data'' [],
      Infof ''Creating duplicity container...'' [],
      Created
        (containerConfig
           (example_conplicity Panics)
           (example_docker_Volume ''data'' Map.empty))
        [] (Inr ''c1''),
      Started ''c1'' [''/var/lib/docker/volumes/data/_data:/var/backups:ro''],
      Removed ''c1'' True]
   \<and> snd (backupVolume
     (example_conplicity Panics)
     (Some (example_docker_Volume ''data'' Map.empty)))
   = Panicked
   \<and> map_option (\<lambda>m. (removals (fst m), last (fst m), snd m))
     (launchRestic 2
        (example_Handler (Ok ()) 0 ''snapshot 40dc1520 saved'')
        [''-r'', ''s3://bucket/host/data'', ''backup'', ''/var/backups'']
        [''data:/var/backups:ro''])
   = Some ([(''c1'', True)], Removed ''c1'' True,
           Returned (0, ''snapshot 40dc1520 saved'', None))
   \<and> map_option (\<lambda>m. (removals (fst m), last (fst m), snd m))
     (launchRestic 2
        (example_Handler (Fails ''no such image'') 0 ''snapshot 40dc1520 saved'')
        [''-r'', ''s3://bucket/host/data'', ''backup'', ''/var/backups'']
        [''data:/var/backups:ro''])
   = Some ([(''c1'', True)], Removed ''c1'' True,
           Returned (0, [], Some ''failed to start container: no such image''))"
proof -
  let ?c = "example_conplicity Panics"
  let ?v = "example_docker_Volume ''data'' Map.empty"
  let ?h0 = "example_Handler (Ok ()) 0 ''snapshot 40dc1520 saved''"
  let ?hF = "example_Handler (Fails ''no such image'') 0 ''snapshot 40dc1520 saved''"
  let ?cmd = "[''-r'', ''s3://bucket/host/data'', ''backup'', ''/var/backups'']"
  let ?binds = "[''data:/var/backups:ro'']"
  have a: "backupVolume ?c (Some ?v) =
     ([Infof ''ID: data'' [],
      Infof ''Driver: local'' [],
      Infof ''Mountpoint: /var/lib/docker/volumes/data/_data'' [],
      Infof ''Creating duplicity container...'' [],
      Created (containerConfig ?c ?v) [] (Inr ''c1''),
      Started ''c1'' [''/var/lib/docker/volumes/data/_data:/var/backups:ro''],
      Removed ''c1'' True], Panicked)"
    by (simp add: backupVolume_def rune_eval getVolumeLabel_def labelPrefix_def errOf_def
        deferred_def)
  have b: "launchRestic 2 ?h0 ?cmd ?binds =
      Some (fst (the (launchRestic 2 ?h0 ?cmd ?binds)),
            Returned (0, ''snapshot 40dc1520 saved'', None))"
    by (simp add: launch_eval)
  have b': "createdWorkers (fst (the (launchRestic 2 ?h0 ?cmd ?binds))) = [''c1'']"
    by (simp add: launch_eval)
  have c: "launchRestic 2 ?hF ?cmd ?binds =
      Some (fst (the (launchRestic 2 ?hF ?cmd ?binds)),
            Returned (0, [], Some ''failed to start container: no such image''))"
    by (simp add: launch_eval)
  have c': "createdWorkers (fst (the (launchRestic 2 ?hF ?cmd ?binds))) = [''c1'']"
    by (simp add: launch_eval)
  from removal_exactly_once
    [of ?c "Some ?v" 2 ?h0 ?cmd ?binds "fst (the (launchRestic 2 ?h0 ?cmd ?binds))"
      "Returned (0, ''snapshot 40dc1520 saved'', None)"] b b'
  have d: "removals (fst (the (launchRestic 2 ?h0 ?cmd ?binds))) = [(''c1'', True)]"
    "last (fst (the (launchRestic 2 ?h0 ?cmd ?binds))) = Removed ''c1'' True"
    by simp_all
  from removal_exactly_once
    [of ?c "Some ?v" 2 ?hF ?cmd ?binds "fst (the (launchRestic 2 ?hF ?cmd ?binds))"
      "Returned (0, [], Some ''failed to start container: no such image'')"] c c'
  have e: "removals (fst (the (launchRestic 2 ?hF ?cmd ?binds))) = [(''c1'', True)]"
    "last (fst (the (launchRestic 2 ?hF ?cmd ?binds))) = Removed ''c1'' True"
    by simp_all
  have f: "map_option (\<lambda>m. (removals (fst m), last (fst m), snd m))
             (launchRestic 2 ?h0 ?cmd ?binds)
           = Some ([(''c1'', True)], Removed ''c1'' True,
                   Returned (0, ''snapshot 40dc1520 saved'', None))"
    by (subst b) (simp add: d)
  have g: "map_option (\<lambda>m. (removals (fst m), last (fst m), snd m))
             (launchRestic 2 ?hF ?cmd ?binds)
           = Some ([(''c1'', True)], Removed ''c1'' True,
                   Returned (0, [], Some ''failed to start container: no such image''))"
    by (subst c) (simp add: e)
  from a f g show ?thesis by simp
qed

section \<open>Failures in the run\<close>

lemma loopBody_skipped:
  assumes "InspectVolume (Client c) (docker_Volume.Name v) = Inr vol"
    and "RuneCountInString (docker_Volume.Name vol) = 64
         \<or> Labels vol ''io.conplicity.ignore'' = Some ''true''"
  shows "loopBody c err v =
           ((case err of
               None \<Rightarrow> []
             | Some e \<Rightarrow>
                 [Errorf (''Failed to inspect volume '' @ docker_Volume.Name v @ '': %v'') [e]])
            @ fst (backupVolume c (Some vol)),
            Returned None)"
  using assms by (cases err) (simp_all add: loopBody_def backupVolume_skipped)

lemma loopBody_create_fails:
  assumes "InspectVolume (Client c) (docker_Volume.Name v) = Inr vol"
    and "RuneCountInString (docker_Volume.Name vol) \<noteq> 64"
    and "Labels vol ''io.conplicity.ignore'' \<noteq> Some ''true''"
    and "CreateContainer (Client c) (containerConfig c vol) = Inl e"
  shows "loopBody c err v =
           ((case err of
               None \<Rightarrow> []
             | Some e \<Rightarrow>
                 [Errorf (''Failed to inspect volume '' @ docker_Volume.Name v @ '': %v'') [e]])
            @ fst (backupVolume c (Some vol)),
            Exited 1)"
  using assms(1)
  by (cases err) (simp_all add: loopBody_def backupVolume_create_fails [OF assms(2-4)])

lemma loopBody_created:
  assumes "InspectVolume (Client c) (docker_Volume.Name v) = Inr vol"
    and "RuneCountInString (docker_Volume.Name vol) \<noteq> 64"
    and "Labels vol ''io.conplicity.ignore'' \<noteq> Some ''true''"
    and "CreateContainer (Client c) (containerConfig c vol) = Inr cid"
  shows "loopBody c err v =
           ((case err of
               None \<Rightarrow> []
             | Some e \<Rightarrow>
                 [Errorf (''Failed to inspect volume '' @ docker_Volume.Name v @ '': %v'') [e]])
            @ fst (backupVolume c (Some vol))
            @ (case Start (Client c) cid [Mountpoint vol @ '':/var/backups:ro''] of
                 Fails e \<Rightarrow>
                   [Errorf (''Failed to process volume '' @ docker_Volume.Name v @ '': %v'') [e]]
               | Ok u \<Rightarrow> []
               | Panics \<Rightarrow> []),
            (case Start (Client c) cid [Mountpoint vol @ '':/var/backups:ro''] of
               Fails e \<Rightarrow> Returned (Some e)
             | Ok u \<Rightarrow> Returned None
             | Panics \<Rightarrow> Panicked))"
  using assms(1)
  by (cases "Start (Client c) cid [Mountpoint vol @ '':/var/backups:ro'']"; cases err)
    (simp_all add: loopBody_def backupVolume_created [OF assms(2-4)])

lemma createdWorkers_log [simp]:
  "createdWorkers (case err of None \<Rightarrow> [] | Some e \<Rightarrow> [Errorf msg [e]]) = []"
  by (cases err) simp_all

lemma mainLoop_Cons_Returned:
  "loopBody c err v = (tr, Returned err') \<Longrightarrow>
   mainLoop c err (v # vs) = (tr @ fst (mainLoop c err' vs), snd (mainLoop c err' vs))"
  by (simp split: prod.splits)

lemma mainLoop_Cons_Exited:
  "loopBody c err v = (tr, Exited n) \<Longrightarrow> mainLoop c err (v # vs) = (tr, Exited n)"
  by simp

lemma loopBody_continues:
  assumes "InspectVolume (Client c) (docker_Volume.Name v) = Inr vol"
    and "RuneCountInString (docker_Volume.Name vol) = 64
         \<or> Labels vol ''io.conplicity.ignore'' = Some ''true''
         \<or> CreateContainer (Client c) (containerConfig c vol) = Inr cid
           \<and> Start (Client c) cid [Mountpoint vol @ '':/var/backups:ro''] \<noteq> Panics"
  shows "\<exists>tr err'. loopBody c err v = (tr, Returned err')
           \<and> createdWorkers tr =
               (if RuneCountInString (docker_Volume.Name vol) = 64
                   \<or> Labels vol ''io.conplicity.ignore'' = Some ''true''
                then [] else [cid])"
proof (cases "RuneCountInString (docker_Volume.Name vol) = 64
              \<or> Labels vol ''io.conplicity.ignore'' = Some ''true''")
  case True
  show ?thesis
    using True by (simp add: loopBody_skipped [OF assms(1) True] backupVolume_skipped)
next
  case False
  then have ns: "RuneCountInString (docker_Volume.Name vol) \<noteq> 64"
    "Labels vol ''io.conplicity.ignore'' \<noteq> Some ''true''" by simp_all
  from False assms(2) have cr: "CreateContainer (Client c) (containerConfig c vol) = Inr cid"
    and st: "Start (Client c) cid [Mountpoint vol @ '':/var/backups:ro''] \<noteq> Panics"
    by blast+
  show ?thesis
    using False st
    by (cases "Start (Client c) cid [Mountpoint vol @ '':/var/backups:ro'']")
      (simp_all add: loopBody_created [OF assms(1) ns cr] backupVolume_created [OF ns cr])
qed

lemma mainLoop_completes:
  assumes "\<forall>v \<in> set vols.
             InspectVolume (Client c) (docker_Volume.Name v) = Inr (f v)
             \<and> (RuneCountInString (docker_Volume.Name (f v)) = 64
                \<or> Labels (f v) ''io.conplicity.ignore'' = Some ''true''
                \<or> CreateContainer (Client c) (containerConfig c (f v)) = Inr (g v)
                  \<and> Start (Client c) (g v) [Mountpoint (f v) @ '':/var/backups:ro''] \<noteq> Panics)"
  shows "(\<exists>err'. snd (mainLoop c err vols) = Returned err')
         \<and> createdWorkers (fst (mainLoop c err vols)) =
             map g [v \<leftarrow> vols. \<not> (RuneCountInString (docker_Volume.Name (f v)) = 64
                                  \<or> Labels (f v) ''io.conplicity.ignore'' = Some ''true'')]"
  using assms
proof (induction vols arbitrary: err)
  case Nil
  then show ?case by simp
next
  case (Cons v vs)
  from Cons.prems have v: "InspectVolume (Client c) (docker_Volume.Name v) = Inr (f v)"
    "RuneCountInString (docker_Volume.Name (f v)) = 64
     \<or> Labels (f v) ''io.conplicity.ignore'' = Some ''true''
     \<or> CreateContainer (Client c) (containerConfig c (f v)) = Inr (g v)
       \<and> Start (Client c) (g v) [Mountpoint (f v) @ '':/var/backups:ro''] \<noteq> Panics"
    by simp_all
  from loopBody_continues [OF v, of err] obtain tr err' where
    body: "loopBody c err v = (tr, Returned err')"
    and tr: "createdWorkers tr =
               (if RuneCountInString (docker_Volume.Name (f v)) = 64
                   \<or> Labels (f v) ''io.conplicity.ignore'' = Some ''true''
                then [] else [g v])"
    by blast
  from Cons.prems have "\<forall>v \<in> set vs.
             InspectVolume (Client c) (docker_Volume.Name v) = Inr (f v)
             \<and> (RuneCountInString (docker_Volume.Name (f v)) = 64
                \<or> Labels (f v) ''io.conplicity.ignore'' = Some ''true''
                \<or> CreateContainer (Client c) (containerConfig c (f v)) = Inr (g v)
                  \<and> Start (Client c) (g v) [Mountpoint (f v) @ '':/var/backups:ro''] \<noteq> Panics)"
    by simp
  from Cons.IH [OF this, of err'] show ?case
    unfolding mainLoop_Cons_Returned [OF body] by (simp add: tr)
qed

lemma main_before_loop:
  assumes "os_Hostname sys = Inr hostname"
    and "NewClient sys ''unix:///var/run/docker.sock'' = Inr client"
  shows "main sys =
           andThen ([Infof ''Starting backup...'' []], Returned ()) (\<lambda>_.
           andThen (checkErr (errOf (ListVolumes client)) ''Failed to list Docker volumes: %v'' 1)
             (\<lambda>_.
           andThen (pullImage \<lparr>Client = client, env = getEnv sys, Hostname = hostname\<rparr>) (\<lambda>err.
           andThen (checkErr err ''Failed to pull image: %v'' 1) (\<lambda>_.
           andThen
             (mainLoop \<lparr>Client = client, env = getEnv sys, Hostname = hostname\<rparr> err
                (case ListVolumes client of Inl e \<Rightarrow> [] | Inr vols \<Rightarrow> vols))
             (\<lambda>_. ([Infof ''End backup...'' []], Returned ()))))))"
  using assms by (simp add: main_def errOf_def Let_def)

lemma main_list_fails:
  assumes "os_Hostname sys = Inr hostname"
    and "NewClient sys ''unix:///var/run/docker.sock'' = Inr client"
    and "ListVolumes client = Inl e"
  shows "main sys =
           ([Infof ''Starting backup...'' [],
             Errorf ''Failed to list Docker volumes: %v'' [e]], Exited 1)"
  by (simp add: main_before_loop [OF assms(1,2)] assms(3) errOf_def)

lemma main_pull_fails:
  assumes "os_Hostname sys = Inr hostname"
    and "NewClient sys ''unix:///var/run/docker.sock'' = Inr client"
    and "ListVolumes client = Inr vols"
    and "InspectImage client (environment.Image (getEnv sys)) = Some e"
    and "PullImage client (environment.Image (getEnv sys)) = Some e'"
  shows "main sys =
           ([Infof ''Starting backup...'' [],
             Infof ''Pulling image %v'' [environment.Image (getEnv sys)],
             Pulled (environment.Image (getEnv sys)),
             Errorf ''Failed to pull image: %v'' [e']], Exited 1)"
  by (simp add: main_before_loop [OF assms(1,2)] assms(3-5) errOf_def pullImage_def)

text \<open>
  C4, as the code has it. Over a list of volumes each of which is inspected and then
  either skipped or given a container whose start does not panic, the loop reaches its
  end and a container is created for every volume that is not skipped, in order, whether
  or not starts fail on the way. A start that fails is logged by the iteration, which
  hands the error to the next one, and the loop goes on with the rest of the list. A
  container that cannot be created ends the run with exit status 1 in that iteration,
  as do a list of volumes that cannot be read and an image that can be neither
  inspected nor pulled.
\<close>

theorem failures_in_the_run:
  "((\<forall>v \<in> set vols.
        InspectVolume (Client c) (docker_Volume.Name v) = Inr (f v)
        \<and> (RuneCountInString (docker_Volume.Name (f v)) = 64
               \<or> Labels (f v) ''io.conplicity.ignore'' = Some ''true''
               \<or> CreateContainer (Client c) (containerConfig c (f v)) = Inr (g v)
                 \<and> Start (Client c) (g v) [Mountpoint (f v) @ '':/var/backups:ro''] \<noteq> Panics)) \<longrightarrow>
      (\<exists>err'. snd (mainLoop c err vols) = Returned err')
      \<and> createdWorkers (fst (mainLoop c err vols)) =
          map g [v \<leftarrow> vols. \<not> (RuneCountInString (docker_Volume.Name (f v)) = 64
                               \<or> Labels (f v) ''io.conplicity.ignore'' = Some ''true'')])
   \<and> (InspectVolume (Client c) (docker_Volume.Name w) = Inr vol
      \<and> RuneCountInString (docker_Volume.Name vol) \<noteq> 64
      \<and> Labels vol ''io.conplicity.ignore'' \<noteq> Some ''true''
      \<and> CreateContainer (Client c) (containerConfig c vol) = Inr cid
      \<and> Start (Client c) cid [Mountpoint vol @ '':/var/backups:ro''] = Fails e \<longrightarrow>
        mainLoop c err (w # ws) =
          (fst (loopBody c err w) @ fst (mainLoop c (Some e) ws), snd (mainLoop c (Some e) ws))
        \<and> last (fst (loopBody c err w)) =
            Errorf (''Failed to process volume '' @ docker_Volume.Name w @ '': %v'') [e])
   \<and> (InspectVolume (Client c) (docker_Volume.Name w) = Inr vol
      \<and> RuneCountInString (docker_Volume.Name vol) \<noteq> 64
      \<and> Labels vol ''io.conplicity.ignore'' \<noteq> Some ''true''
      \<and> CreateContainer (Client c) (containerConfig c vol) = Inl e \<longrightarrow>
        mainLoop c err (w # ws) = (fst (loopBody c err w), Exited 1)
        \<and> last (fst (loopBody c err w)) =
            Errorf (''Failed to create container for volume '' @ docker_Volume.Name vol
                    @ '': %v'') [e])
   \<and> (os_Hostname sys = Inr hostname
      \<and> NewClient sys ''unix:///var/run/docker.sock'' = Inr client
      \<and> ListVolumes client = Inl e \<longrightarrow>
        main sys =
          ([Infof ''Starting backup...'' [],
            Errorf ''Failed to list Docker volumes: %v'' [e]], Exited 1))
   \<and> (os_Hostname sys = Inr hostname
      \<and> NewClient sys ''unix:///var/run/docker.sock'' = Inr client
      \<and> ListVolumes client = Inr listed
      \<and> InspectImage client (environment.Image (getEnv sys)) = Some e
      \<and> PullImage client (environment.Image (getEnv sys)) = Some e' \<longrightarrow>
        main sys =
          ([Infof ''Starting backup...'' [],
            Infof ''Pulling image %v'' [environment.Image (getEnv sys)],
            Pulled (environment.Image (getEnv sys)),
            Errorf ''Failed to pull image: %v'' [e']], Exited 1))"
proof (intro conjI impI)
  assume "\<forall>v \<in> set vols.
        InspectVolume (Client c) (docker_Volume.Name v) = Inr (f v)
        \<and> (RuneCountInString (docker_Volume.Name (f v)) = 64
               \<or> Labels (f v) ''io.conplicity.ignore'' = Some ''true''
               \<or> CreateContainer (Client c) (containerConfig c (f v)) = Inr (g v)
                 \<and> Start (Client c) (g v) [Mountpoint (f v) @ '':/var/backups:ro''] \<noteq> Panics)"
  from mainLoop_completes [OF this, of err]
  show "\<exists>err'. snd (mainLoop c err vols) = Returned err'"
    and "createdWorkers (fst (mainLoop c err vols)) =
          map g [v \<leftarrow> vols. \<not> (RuneCountInString (docker_Volume.Name (f v)) = 64
                               \<or> Labels (f v) ''io.conplicity.ignore'' = Some ''true'')]"
    by blast+
next
  assume a: "InspectVolume (Client c) (docker_Volume.Name w) = Inr vol
      \<and> RuneCountInString (docker_Volume.Name vol) \<noteq> 64
      \<and> Labels vol ''io.conplicity.ignore'' \<noteq> Some ''true''
      \<and> CreateContainer (Client c) (containerConfig c vol) = Inr cid
      \<and> Start (Client c) cid [Mountpoint vol @ '':/var/backups:ro''] = Fails e"
  then have body: "loopBody c err w =
      (fst (loopBody c err w), Returned (Some e))"
    using loopBody_created [of c w vol cid err] by simp
  from mainLoop_Cons_Returned [OF body]
  show "mainLoop c err (w # ws) =
          (fst (loopBody c err w) @ fst (mainLoop c (Some e) ws), snd (mainLoop c (Some e) ws))" .
  from a show "last (fst (loopBody c err w)) =
            Errorf (''Failed to process volume '' @ docker_Volume.Name w @ '': %v'') [e]"
    using loopBody_created [of c w vol cid err] by simp
next
  assume a: "InspectVolume (Client c) (docker_Volume.Name w) = Inr vol
      \<and> RuneCountInString (docker_Volume.Name vol) \<noteq> 64
      \<and> Labels vol ''io.conplicity.ignore'' \<noteq> Some ''true''
      \<and> CreateContainer (Client c) (containerConfig c vol) = Inl e"
  then have body: "loopBody c err w = (fst (loopBody c err w), Exited 1)"
    using loopBody_create_fails [of c w vol e err] by simp
  from mainLoop_Cons_Exited [OF body]
  show "mainLoop c err (w # ws) = (fst (loopBody c err w), Exited 1)" .
  from a show "last (fst (loopBody c err w)) =
            Errorf (''Failed to create container for volume '' @ docker_Volume.Name vol
                    @ '': %v'') [e]"
    using loopBody_create_fails [of c w vol e err] backupVolume_create_fails [of vol c e]
    by simp
next
  assume "os_Hostname sys = Inr hostname
      \<and> NewClient sys ''unix:///var/run/docker.sock'' = Inr client
      \<and> ListVolumes client = Inl e"
  then show "main sys =
          ([Infof ''Starting backup...'' [],
            Errorf ''Failed to list Docker volumes: %v'' [e]], Exited 1)"
    using main_list_fails [of sys hostname client e] by simp
next
  assume "os_Hostname sys = Inr hostname
      \<and> NewClient sys ''unix:///var/run/docker.sock'' = Inr client
      \<and> ListVolumes client = Inr listed
      \<and> InspectImage client (environment.Image (getEnv sys)) = Some e
      \<and> PullImage client (environment.Image (getEnv sys)) = Some e'"
  then show "main sys =
          ([Infof ''Starting backup...'' [],
            Infof ''Pulling image %v'' [environment.Image (getEnv sys)],
            Pulled (environment.Image (getEnv sys)),
            Errorf ''Failed to pull image: %v'' [e']], Exited 1)"
    using main_pull_fails [of sys hostname client listed e e'] by simp
qed

theorem failures_in_the_run_witness:
  "snd (mainLoop
      (example_run (example_Client (Inr two_Volumes) None None))
      None
      two_Volumes) = Returned None
   \<and> createdWorkers (fst (mainLoop
      (example_run (example_Client (Inr two_Volumes) None None))
      None
      two_Volumes)) = [''s3://bucket/host1/data1'', ''s3://bucket/host1/data2'']
   \<and> last (fst (loopBody
      (example_run (example_Client (Inr two_Volumes) None None))
      None
      (listed_Volume ''data1'')))
     = Errorf ''Failed to process volume data1: %v'' [''cannot start'']
   \<and> snd (mainLoop
      (example_run (example_Client (Inr two_Volumes) None None))
      None
      [listed_Volume ''broken'', listed_Volume ''data2'']) = Exited 1
   \<and> main
      (example_system (example_Client (Inl ''cannot connect to the Docker daemon'') None None))
     = ([Infof ''Starting backup...'' [],
         Errorf ''Failed to list Docker volumes: %v'' [''cannot connect to the Docker daemon'']],
        Exited 1)
   \<and> main
      (example_system (example_Client (Inr two_Volumes)
           (Some ''no such image'') (Some ''pull access denied'')))
     = ([Infof ''Starting backup...'' [],
         Infof ''Pulling image %v'' [''camptocamp/duplicity:latest''],
         Pulled ''camptocamp/duplicity:latest'',
         Errorf ''Failed to pull image: %v'' [''pull access denied'']],
        Exited 1)"
proof -
  let ?c = "example_run (example_Client (Inr two_Volumes) None None)"
  let ?d1 = "listed_Volume ''data1''"
  let ?d2 = "listed_Volume ''data2''"
  let ?br = "listed_Volume ''broken''"
  let ?sysD = "example_system (example_Client (Inl ''cannot connect to the Docker daemon'') None None)"
  let ?sysE = "example_system (example_Client (Inr two_Volumes)
           (Some ''no such image'') (Some ''pull access denied''))"
  let ?clD = "example_Client (Inl ''cannot connect to the Docker daemon'') None None"
  let ?clE = "example_Client (Inr two_Volumes)
      (Some ''no such image'') (Some ''pull access denied'')"
  have a: "(\<exists>err'. snd (mainLoop ?c None [?d1, ?d2]) = Returned err')
     \<and> createdWorkers (fst (mainLoop ?c None [?d1, ?d2]))
         = [''s3://bucket/host1/data1'', ''s3://bucket/host1/data2'']"
    using failures_in_the_run
      [where c = ?c and vols = "[?d1, ?d2]" and f = "\<lambda>v. v" and err = None
        and g = "\<lambda>v. ''s3://bucket/host1/'' @ docker_Volume.Name v"]
    by (simp add: rune_eval containerConfig_def fullIfOlderThan_def getVolumeLabel_def
        labelPrefix_def)
  have b: "mainLoop ?c None [?d1, ?d2] =
             (fst (loopBody ?c None ?d1) @ fst (mainLoop ?c (Some ''cannot start'') [?d2]),
              snd (mainLoop ?c (Some ''cannot start'') [?d2]))
           \<and> last (fst (loopBody ?c None ?d1))
               = Errorf ''Failed to process volume data1: %v'' [''cannot start'']"
    using failures_in_the_run
      [where c = ?c and w = ?d1 and ws = "[?d2]" and vol = ?d1 and err = None
        and cid = "''s3://bucket/host1/data1''" and e = "''cannot start''"]
    by (simp add: rune_eval containerConfig_def fullIfOlderThan_def getVolumeLabel_def
        labelPrefix_def)
  have b': "snd (mainLoop ?c (Some ''cannot start'') [?d2]) = Returned None"
    by (simp add: loopBody_def backupVolume_def errOf_def deferred_def rune_eval
        containerConfig_def fullIfOlderThan_def getVolumeLabel_def labelPrefix_def)
  have c: "mainLoop ?c None [?br, ?d2] = (fst (loopBody ?c None ?br), Exited 1)"
    using failures_in_the_run
      [where c = ?c and w = ?br and ws = "[?d2]" and vol = ?br and err = None
        and e = "''no space left on device''"]
    by (simp add: rune_eval containerConfig_def fullIfOlderThan_def getVolumeLabel_def
        labelPrefix_def)
  have d: "main ?sysD
     = ([Infof ''Starting backup...'' [],
         Errorf ''Failed to list Docker volumes: %v'' [''cannot connect to the Docker daemon'']],
        Exited 1)"
    using failures_in_the_run
      [where sys = ?sysD and hostname = "''host1''" and client = ?clD
        and e = "''cannot connect to the Docker daemon''"]
    by simp
  have e: "main ?sysE
     = ([Infof ''Starting backup...'' [],
         Infof ''Pulling image %v'' [''camptocamp/duplicity:latest''],
         Pulled ''camptocamp/duplicity:latest'',
         Errorf ''Failed to pull image: %v'' [''pull access denied'']],
        Exited 1)"
    using failures_in_the_run
      [where sys = ?sysE and hostname = "''host1''" and client = ?clE
        and e = "''no such image''" and e' = "''pull access denied''"
        and listed = "[?d1, ?d2]"]
    by simp
  from a b b' have "snd (mainLoop ?c None [?d1, ?d2]) = Returned None" by simp
  with a b c d e show ?thesis by simp
qed

text \<open>
  Two volumes are listed and the container of the first cannot be created: the run ends
  with exit status 1 there, and nothing is done for the second volume.
\<close>

theorem create_failure_aborts_counterexample:
  "snd (main
      (example_system (example_Client (Inr [listed_Volume ''broken'', listed_Volume ''data2''])
           None None))) = Exited 1
   \<and> [m. Infof m a \<leftarrow> fst (main
      (example_system (example_Client (Inr [listed_Volume ''broken'', listed_Volume ''data2''])
           None None)))]
     = [''Starting backup...'', ''ID: broken'', ''Driver: local'',
        ''Mountpoint: /volumes/broken'', ''Creating duplicity container...'']
   \<and> [(m, a). Errorf m a \<leftarrow> fst (main
      (example_system (example_Client (Inr [listed_Volume ''broken'', listed_Volume ''data2''])
           None None)))]
     = [(''Failed to create container for volume broken: %v'', [''no space left on device''])]"
  by (simp add: main_def pullImage_def loopBody_def backupVolume_def errOf_def deferred_def
      rune_eval containerConfig_def fullIfOlderThan_def getVolumeLabel_def labelPrefix_def)

end
